theory Spec2Isabelle
  imports Complex_Main
begin

section \<open>The store (server/database.py)\<close>

text \<open>
  The numbers of the tables. SQLite hands a number to Python as an \<^verbatim>\<open>int\<close> or as a
  \<^verbatim>\<open>float\<close>; Python computes with integers exactly and with floats in IEEE double
  arithmetic. The arithmetic of doubles is not evaluated here: a float is the term that
  computes it, so that what is proved about a float holds whatever the rounding does.
  \<open>Double r\<close> is the double nearest to the rational \<open>r\<close>, \<open>FOfInt n\<close> the conversion
  \<^verbatim>\<open>float(n)\<close>, \<open>FTimes\<close> and \<open>FPlus\<close> the product and the sum of two doubles.
\<close>

datatype pyfloat = Double rat | FOfInt int | FTimes pyfloat pyfloat | FPlus pyfloat pyfloat

datatype pynum = PyInt int | PyFloat pyfloat

text \<open>
  \<^verbatim>\<open>x * n\<close> for a number \<open>x\<close> and an integer \<open>n\<close>, \<^verbatim>\<open>x + y\<close> for two numbers, and
  \<^verbatim>\<open>float(x)\<close>: two integers give an integer, and an integer that meets a float is
  converted to a float first. The conversion raises \<open>OverflowError\<close> for an integer
  beyond the range of the doubles (about \<open>1.8e308\<close>); the integers converted below are
  quantities within the stock of a table, prices and their products, which are far
  from it, and the exception is not modelled.
\<close>

fun py_times :: "pynum \<Rightarrow> int \<Rightarrow> pynum" where
  "py_times (PyInt p) n = PyInt (p * n)"
| "py_times (PyFloat x) n = PyFloat (FTimes x (FOfInt n))"

fun py_plus :: "pynum \<Rightarrow> pynum \<Rightarrow> pynum" where
  "py_plus (PyInt a) (PyInt b) = PyInt (a + b)"
| "py_plus (PyInt a) (PyFloat y) = PyFloat (FPlus (FOfInt a) y)"
| "py_plus (PyFloat x) (PyInt b) = PyFloat (FPlus x (FOfInt b))"
| "py_plus (PyFloat x) (PyFloat y) = PyFloat (FPlus x y)"

fun py_float :: "pynum \<Rightarrow> pynum" where
  "py_float (PyInt a) = PyFloat (FOfInt a)"
| "py_float (PyFloat x) = PyFloat x"

text \<open>
  The integers of SQLite have 64 bits. \<^verbatim>\<open>sqlite3\<close> raises \<open>OverflowError\<close> when a Python
  integer outside that range is bound to a parameter of a statement; a float is bound as
  it is.
\<close>

definition sqlite_int :: "int \<Rightarrow> bool" where
  "sqlite_int n = (- (2 ^ 63) \<le> n \<and> n < 2 ^ 63)"

fun bindable :: "pynum \<Rightarrow> bool" where
  "bindable (PyInt n) = sqlite_int n"
| "bindable (PyFloat x) = True"

text \<open>
  The tables of \<^verbatim>\<open>create_tables\<close> that the order transaction touches. A row of
  \<^verbatim>\<open>books\<close> is keyed by its ISBN, a row of \<^verbatim>\<open>customers\<close> by its id, so both
  tables are maps; \<^verbatim>\<open>orders\<close> and \<^verbatim>\<open>order_items\<close> only grow, so they are lists in
  insertion order. A price is the number Python reads from the column \<^verbatim>\<open>price\<close>: the
  column has numeric affinity, so a price without a fractional part (and within 64
  bits) comes back as an \<^verbatim>\<open>int\<close> and any other as a \<^verbatim>\<open>float\<close>. The rows of \<^verbatim>\<open>orders\<close> and \<^verbatim>\<open>order_items\<close>
  hold the numbers as they were bound to the \<^verbatim>\<open>INSERT\<close>. Stocks and quantities are
  integers, and nothing in the schema keeps \<^verbatim>\<open>stock\<close> from going negative. SQLite
  computes \<^verbatim>\<open>stock - ?\<close> and \<^verbatim>\<open>stock + ?\<close> in its 64-bit integers and goes on in
  floating point when the result leaves them; the integers of the model are unbounded,
  so it follows the code as long as the stocks stay within 64 bits. \<^verbatim>\<open>order_seq\<close> is the
  AUTOINCREMENT counter of \<^verbatim>\<open>orders\<close>: the largest id handed out so far.
\<close>

record book =
  title :: string
  price :: pynum
  stock :: int

record order_row =
  order_id :: nat
  order_customer :: int
  total_amount :: pynum
  status :: string

record order_item_row =
  item_order_id :: nat
  book_isbn :: string
  item_quantity :: int
  unit_price :: pynum

record database =
  customers :: "int \<rightharpoonup> string"
  books :: "string \<rightharpoonup> book"
  orders :: "order_row list"
  order_items :: "order_item_row list"
  order_seq :: nat

text \<open>
  What the storage layer reports for one transaction opened with \<^verbatim>\<open>get_db_cursor\<close>:
  it is available, or it raises \<^verbatim>\<open>sqlite3.OperationalError\<close> with a message that
  contains "database is locked", or with another message, or it raises some other
  exception. Whatever statement the error surfaces at, \<^verbatim>\<open>get_db_cursor\<close> rolls the
  transaction back and re-raises, so a faulty transaction has no effect on the tables.
  A \<open>storage list\<close> gives the reports for the coming transactions in order; once the
  list is used up the storage is available.
\<close>

datatype storage = Available | Locked | OperationalFault string | OtherFault string

type_synonym world = "storage list \<times> database"

datatype exn =
    NameError string
  | TypeError string
  | AttributeError string
  | ValidationError string
  | OverflowError string
  | StorageError string
  | JSONDecodeError string
  | CompletionError string

definition int_too_large :: exn where
  "int_too_large = OverflowError ''Python int too large to convert to SQLite INTEGER''"

section \<open>The catalogue tools (server/tools.py)\<close>

text \<open>
  One dictionary of the \<^verbatim>\<open>items\<close> argument: \<^verbatim>\<open>item.get('isbn')\<close> and
  \<^verbatim>\<open>item.get('quantity')\<close>, \<open>None\<close> when the key is absent or holds \<^verbatim>\<open>None\<close>.
  ISBNs are strings and quantities integers.
\<close>

record line_request =
  isbn :: "string option"
  quantity :: "int option"

text \<open>One entry of the local list \<^verbatim>\<open>order_items\<close> built by the validation loop.\<close>

record order_line =
  line_isbn :: string
  line_title :: string
  line_quantity :: int
  line_unit_price :: pynum
  line_item_total :: pynum

text \<open>
  The strings the tools return, one constructor per message:
  \<^item> \<open>CustomerNotFound c\<close>: "Error: Customer with ID c not found."
  \<^item> \<open>ItemFieldsMissing\<close>: "Error: Each item must have 'isbn' and 'quantity'."
  \<^item> \<open>QuantityNotPositive i\<close>: "Error: Quantity for ISBN i must be positive."
  \<^item> \<open>BookNotFound i\<close>: "Error: Book with ISBN i not found."
  \<^item> \<open>NotEnoughStock t a r\<close>: "Error: Not enough stock for 't'. Available: a, Requested: r"
  \<^item> \<open>OrderNotCreated n\<close>: "Error: Order #n was not created successfully."
  \<^item> \<open>OrderCreated n c t ls us\<close>: the success text with the order id, the customer's
    name, the total, the lines and the (title, stock) pairs re-read after the update
  \<^item> \<open>DatabaseError m\<close>: "Database error: m"
  \<^item> \<open>ErrorAfterRetry e\<close>: "Error creating order after retry: e"
  \<^item> \<open>ErrorCreatingOrder e\<close>: "Error creating order: e"
  \<^item> \<open>Restocked t q old new\<close>: the success text of \<^verbatim>\<open>restock_book_tool\<close>
  \<^item> \<open>ErrorRestocking e\<close>: "Error restocking book: e"
  \<^item> \<open>PriceUpdated t old new\<close>: the success text of \<^verbatim>\<open>update_price_tool\<close>
  \<^item> \<open>ErrorUpdatingPrice e\<close>: "Error updating book price: e"
  \<^item> \<open>OtherText s\<close>: any other text \<open>s\<close>, such as those of the read-only tools.
\<close>

datatype reply =
    CustomerNotFound int
  | ItemFieldsMissing
  | QuantityNotPositive string
  | BookNotFound string
  | NotEnoughStock string int int
  | OrderNotCreated nat
  | OrderCreated nat string pynum "order_line list" "(string \<times> int) list"
  | DatabaseError string
  | ErrorAfterRetry exn
  | ErrorCreatingOrder exn
  | Restocked string int int int
  | ErrorRestocking exn
  | PriceUpdated string pynum pyfloat
  | ErrorUpdatingPrice exn
  | OtherText string

fun is_created :: "reply \<Rightarrow> bool" where
  "is_created (OrderCreated n c t ls us) = True"
| "is_created r = False"

text \<open>
  \<^verbatim>\<open>UPDATE books SET stock = stock + d WHERE isbn = i\<close>; the order transaction calls it
  with \<open>d = - quantity\<close>. No row matches an unknown ISBN.
\<close>

definition update_stock :: "string \<Rightarrow> int \<Rightarrow> database \<Rightarrow> database" where
  "update_stock i d db =
     (case books db i of
        None \<Rightarrow> db
      | Some b \<Rightarrow> db\<lparr>books := (books db)(i \<mapsto> b\<lparr>stock := stock b + d\<rparr>)\<rparr>)"

text \<open>
  The validation loop of \<^verbatim>\<open>create_order_safe\<close> (lines 104 to 133). Every line is checked
  against the stock read from the table, which the loop does not change: an earlier
  line for the same ISBN is not taken into account. The total starts as the integer 0
  and grows by \<^verbatim>\<open>book["price"] * quantity\<close> line by line, in Python's arithmetic.
  \<open>Inl\<close> is the early return with its message.
\<close>

fun validate_items ::
  "database \<Rightarrow> line_request list \<Rightarrow> pynum \<Rightarrow> order_line list
     \<Rightarrow> reply + pynum \<times> order_line list" where
  "validate_items db [] amount order_lines = Inr (amount, order_lines)"
| "validate_items db (item # items) amount order_lines =
     (case isbn item of
        None \<Rightarrow> Inl ItemFieldsMissing
      | Some i \<Rightarrow>
         (case quantity item of
            None \<Rightarrow> Inl ItemFieldsMissing
          | Some q \<Rightarrow>
             if i = [] \<or> q = 0 then Inl ItemFieldsMissing
             else if q \<le> 0 then Inl (QuantityNotPositive i)
             else
               (case books db i of
                  None \<Rightarrow> Inl (BookNotFound i)
                | Some b \<Rightarrow>
                   if stock b < q then Inl (NotEnoughStock (title b) (stock b) q)
                   else
                     validate_items db items (py_plus amount (py_times (price b) q))
                       (order_lines @
                          [\<lparr>line_isbn = i, line_title = title b, line_quantity = q,
                            line_unit_price = py_float (price b),
                            line_item_total = py_float (py_times (price b) q)\<rparr>]))))"

text \<open>The second loop (lines 143 to 153): one \<^verbatim>\<open>order_items\<close> row and one stock update per line.\<close>

fun write_lines :: "nat \<Rightarrow> order_line list \<Rightarrow> database \<Rightarrow> database" where
  "write_lines n [] db = db"
| "write_lines n (l # ls) db =
     write_lines n ls
       (update_stock (line_isbn l) (- line_quantity l)
          (db\<lparr>order_items := order_items db @
                [\<lparr>item_order_id = n, book_isbn = line_isbn l,
                  item_quantity = line_quantity l, unit_price = line_unit_price l\<rparr>]\<rparr>))"

text \<open>
  The last loop (lines 172 to 175) reads every line's book again;
  \<^verbatim>\<open>updated_book['title']\<close> raises \<open>TypeError\<close> when the row is gone.
\<close>

fun stock_report :: "database \<Rightarrow> order_line list \<Rightarrow> exn + (string \<times> int) list" where
  "stock_report db [] = Inr []"
| "stock_report db (l # ls) =
     (case books db (line_isbn l) of
        None \<Rightarrow> Inl (TypeError ''NoneType object is not subscriptable'')
      | Some b \<Rightarrow>
         (case stock_report db ls of
            Inl e \<Rightarrow> Inl e
          | Inr us \<Rightarrow> Inr ((title b, stock b) # us)))"

text \<open>
  The body of the \<^verbatim>\<open>with get_db_cursor()\<close> block of \<^verbatim>\<open>create_order_safe\<close> on an
  available storage: \<open>Inr (r, db')\<close> is a return of \<open>r\<close>, after which the context manager
  commits \<open>db'\<close>; \<open>Inl e\<close> is an exception raised inside the block. The customer id is
  bound to the \<^verbatim>\<open>SELECT\<close> of line 93 and the total to the \<^verbatim>\<open>INSERT\<close> of line 136, which
  raise \<open>OverflowError\<close> for an integer beyond 64 bits. A quantity that has passed the
  check against the stock is within the integers of the table.
\<close>

definition order_transaction ::
  "database \<Rightarrow> int \<Rightarrow> line_request list \<Rightarrow> exn + reply \<times> database" where
  "order_transaction db customer_id items =
     (if \<not> sqlite_int customer_id then Inl int_too_large
      else
        (case customers db customer_id of
           None \<Rightarrow> Inr (CustomerNotFound customer_id, db)
         | Some customer_name \<Rightarrow>
            (case validate_items db items (PyInt 0) [] of
               Inl err \<Rightarrow> Inr (err, db)
             | Inr (amount, order_lines) \<Rightarrow>
                if \<not> bindable amount then Inl int_too_large
                else
                  (let n = Suc (order_seq db);
                       db1 = db\<lparr>orders := orders db @
                                [\<lparr>order_id = n, order_customer = customer_id,
                                  total_amount = amount, status = ''completed''\<rparr>],
                              order_seq := n\<rparr>;
                       db2 = write_lines n order_lines db1
                   in if List.find (\<lambda>r. order_id r = n) (orders db2) = None
                      then Inr (OrderNotCreated n, db2)
                      else
                        (case stock_report db2 order_lines of
                           Inl e \<Rightarrow> Inl e
                         | Inr us \<Rightarrow>
                            Inr (OrderCreated n customer_name amount order_lines us, db2))))))"

text \<open>
  The names bound at module level in \<^verbatim>\<open>tools.py\<close> when \<^verbatim>\<open>create_order_safe\<close> runs: its
  imports (lines 1 to 10), \<^verbatim>\<open>logger\<close>, the argument classes and the tools. The module
  \<^verbatim>\<open>time\<close> is not among them, so evaluating \<^verbatim>\<open>time.sleep(0.1)\<close> (line 183) raises
  \<open>NameError\<close>.
\<close>

definition tools_globals :: "string list" where
  "tools_globals =
     [''sqlite3'', ''logging'', ''List'', ''Dict'', ''Any'', ''Optional'', ''Decimal'',
      ''datetime'', ''tool'', ''BaseModel'', ''Field'', ''get_db_cursor'', ''logger'',
      ''FindBooksInput'', ''CreateOrderInput'', ''RestockBookInput'', ''UpdatePriceInput'',
      ''OrderStatusInput'', ''SearchKnowledgeInput'', ''find_books_tool'',
      ''create_order_safe'', ''create_order_tool'', ''restock_book_tool'',
      ''update_price_tool'', ''order_status_tool'', ''inventory_summary_tool'',
      ''search_knowledge_base_tool'', ''list_customers_tool'', ''test_tools'']"

definition time_sleep :: "exn + unit" where
  "time_sleep =
     (if ''time'' \<in> set tools_globals then Inr ()
      else Inl (NameError ''name 'time' is not defined''))"

text \<open>
  One pass through the \<^verbatim>\<open>try\<close> block on an available storage: a return commits, an
  exception rolls back and is turned into a message by \<^verbatim>\<open>except Exception\<close> (line 190).
\<close>

definition order_attempt ::
  "int \<Rightarrow> line_request list \<Rightarrow> database \<Rightarrow> (exn + reply) \<times> database" where
  "order_attempt customer_id items db =
     (case order_transaction db customer_id items of
        Inl e \<Rightarrow> (Inr (ErrorCreatingOrder e), db)
      | Inr (r, db') \<Rightarrow> (Inr r, db'))"

text \<open>
  \<^verbatim>\<open>create_order_safe\<close> (lines 88 to 191). The result is \<open>Inr\<close> of the returned message
  or \<open>Inl\<close> of an exception that leaves the function. An exception raised inside the
  handler of \<^verbatim>\<open>sqlite3.OperationalError\<close> is not caught by the \<^verbatim>\<open>except Exception\<close>
  clause of the same \<^verbatim>\<open>try\<close>; the retry is the recursive call of line 185, whose own
  exceptions are caught by the inner \<^verbatim>\<open>try\<close>.
\<close>

fun create_order_safe ::
  "int \<Rightarrow> line_request list \<Rightarrow> world \<Rightarrow> (exn + reply) \<times> world" where
  "create_order_safe customer_id items ([], db) =
     (case order_attempt customer_id items db of (r, db') \<Rightarrow> (r, ([], db')))"
| "create_order_safe customer_id items (Available # st, db) =
     (case order_attempt customer_id items db of (r, db') \<Rightarrow> (r, (st, db')))"
| "create_order_safe customer_id items (Locked # st, db) =
     (case time_sleep of
        Inl e \<Rightarrow> (Inl e, (st, db))
      | Inr u \<Rightarrow>
         (case create_order_safe customer_id items (st, db) of
            (Inl e, w) \<Rightarrow> (Inr (ErrorAfterRetry e), w)
          | (Inr r, w) \<Rightarrow> (Inr r, w)))"
| "create_order_safe customer_id items (OperationalFault m # st, db) =
     (Inr (DatabaseError m), (st, db))"
| "create_order_safe customer_id items (OtherFault m # st, db) =
     (Inr (ErrorCreatingOrder (StorageError m)), (st, db))"

text \<open>
  The next report of the storage layer, and the reports left after it.
\<close>

fun next_storage :: "storage list \<Rightarrow> storage \<times> storage list" where
  "next_storage [] = (Available, [])"
| "next_storage (s # st) = (s, st)"

fun storage_exn :: "storage \<Rightarrow> exn" where
  "storage_exn (OtherFault m) = StorageError m"
| "storage_exn (OperationalFault m) = StorageError m"
| "storage_exn Locked = StorageError ''database is locked''"
| "storage_exn Available = StorageError []"

text \<open>
  \<^verbatim>\<open>restock_book_tool\<close> (lines 305 to 338): every exception, the storage layer's
  included, is turned into a message. The quantity is bound to the \<^verbatim>\<open>UPDATE\<close> of line
  318, which raises \<open>OverflowError\<close> for an integer beyond 64 bits; the transaction is
  then rolled back. The result is \<open>None\<close> where the new stock would leave the 64-bit
  integers: SQLite then stores a float, which the catalogue of this model does not hold,
  and the model says nothing about that call.
\<close>

definition restock_book_tool :: "string \<Rightarrow> int \<Rightarrow> world \<Rightarrow> (reply \<times> world) option" where
  "restock_book_tool i q w =
     (case next_storage (fst w) of
        (Available, st) \<Rightarrow>
          (case books (snd w) i of
             None \<Rightarrow> Some (BookNotFound i, (st, snd w))
           | Some b \<Rightarrow>
              if \<not> sqlite_int q then Some (ErrorRestocking int_too_large, (st, snd w))
              else if sqlite_int (stock b + q) then
                Some (Restocked (title b) q (stock b) (stock b + q),
                      (st, update_stock i q (snd w)))
              else None)
      | (fault, st) \<Rightarrow> Some (ErrorRestocking (storage_exn fault), (st, snd w)))"

text \<open>
  \<^verbatim>\<open>update_price_tool\<close> (lines 340 to 371). The new price is a float; the column gives
  it back as an integer when it has no fractional part. \<open>stored_price\<close> is that number
  for the floats the model can tell it for, the conversions of an integer that a double
  holds exactly; for another float the result of the tool is \<open>None\<close>, and the model says
  nothing about that call.
\<close>

fun stored_price :: "pyfloat \<Rightarrow> pynum option" where
  "stored_price (FOfInt n) = (if \<bar>n\<bar> \<le> 2 ^ 53 then Some (PyInt n) else None)"
| "stored_price x = None"

definition update_price_tool :: "string \<Rightarrow> pyfloat \<Rightarrow> world \<Rightarrow> (reply \<times> world) option" where
  "update_price_tool i new_price w =
     (case next_storage (fst w) of
        (Available, st) \<Rightarrow>
          (case books (snd w) i of
             None \<Rightarrow> Some (BookNotFound i, (st, snd w))
           | Some b \<Rightarrow>
              (case stored_price new_price of
                 None \<Rightarrow> None
               | Some p \<Rightarrow>
                  Some (PriceUpdated (title b) (price b) new_price,
                        (st, (snd w)\<lparr>books := (books (snd w))(i \<mapsto> b\<lparr>price := p\<rparr>)\<rparr>))))
      | (fault, st) \<Rightarrow> Some (ErrorUpdatingPrice (storage_exn fault), (st, snd w)))"

section \<open>Notions used to state the properties of the order transaction\<close>

text \<open>
  A line the validation loop accepts against the table \<open>db\<close>: it names a non-empty ISBN
  of the catalogue and a positive quantity of at most the stock on hand.
\<close>

definition line_ok :: "database \<Rightarrow> line_request \<Rightarrow> bool" where
  "line_ok db l =
     (case (isbn l, quantity l) of
        (Some i, Some q) \<Rightarrow>
          i \<noteq> [] \<and> 0 < q \<and> (case books db i of None \<Rightarrow> False | Some b \<Rightarrow> q \<le> stock b)
      | _ \<Rightarrow> False)"

text \<open>
  The price of a line, unit price times quantity; the total of a request, the sum of the
  prices of its lines taken in the order of the list from the integer 0, in Python's
  arithmetic; and the quantity a request asks of ISBN \<open>i\<close>.
\<close>

definition line_total :: "database \<Rightarrow> line_request \<Rightarrow> pynum" where
  "line_total db l =
     (case (isbn l, quantity l) of
        (Some i, Some q) \<Rightarrow>
          (case books db i of None \<Rightarrow> PyInt 0 | Some b \<Rightarrow> py_times (price b) q)
      | _ \<Rightarrow> PyInt 0)"

definition order_total :: "database \<Rightarrow> line_request list \<Rightarrow> pynum" where
  "order_total db items = foldl (\<lambda>a l. py_plus a (line_total db l)) (PyInt 0) items"

definition requested :: "line_request list \<Rightarrow> string \<Rightarrow> int" where
  "requested items i =
     sum_list (map (\<lambda>l. case quantity l of None \<Rightarrow> 0 | Some q \<Rightarrow> q)
                 (filter (\<lambda>l. isbn l = Some i) items))"



text \<open>The entry the validation loop appends for an accepted line, and the row the second loop inserts for it.\<close>

definition accepted_line :: "database \<Rightarrow> line_request \<Rightarrow> order_line" where
  "accepted_line db l =
     (case (isbn l, quantity l, books db (the (isbn l))) of
        (Some i, Some q, Some b) \<Rightarrow>
          \<lparr>line_isbn = i, line_title = title b, line_quantity = q,
           line_unit_price = py_float (price b),
           line_item_total = py_float (py_times (price b) q)\<rparr>
      | _ \<Rightarrow> \<lparr>line_isbn = [], line_title = [], line_quantity = 0,
             line_unit_price = PyInt 0, line_item_total = PyInt 0\<rparr>)"


text \<open>The quantity a list of order lines takes from ISBN \<open>i\<close>.\<close>

definition lines_quantity :: "order_line list \<Rightarrow> string \<Rightarrow> int" where
  "lines_quantity ls i = sum_list (map line_quantity (filter (\<lambda>l. line_isbn l = i) ls))"

text \<open>Whether a call of \<^verbatim>\<open>create_order_safe\<close> ended with the success text.\<close>

fun created :: "exn + reply \<Rightarrow> bool" where
  "created (Inr r) = is_created r"
| "created (Inl e) = False"

text \<open>The invariant of the catalogue: no book has a negative stock.\<close>

definition stock_nonneg :: "database \<Rightarrow> bool" where
  "stock_nonneg db = (\<forall>i b. books db i = Some b \<longrightarrow> 0 \<le> stock b)"

text \<open>
  The catalogue of the specification's scenarios: one customer, and item \<open>X\<close> with
  stock 5 at the price 10.00, which the column gives back as the integer 10.
\<close>

definition shop :: database where
  "shop = \<lparr>customers = [1 \<mapsto> ''Alice''],
            books = [''X'' \<mapsto> \<lparr>title = ''Book X'', price = PyInt 10, stock = 5\<rparr>],
            orders = [], order_items = [], order_seq = 0\<rparr>"




section \<open>The response extractor (server/gemini_agent.py)\<close>

text \<open>
  The values \<^verbatim>\<open>json.loads\<close> returns: \<open>None\<close>, booleans, integers, strings, lists and
  dictionaries (in insertion order, one entry per key). Floats are left out.
\<close>

datatype json =
    JNull
  | JBool bool
  | JInt int
  | JString string
  | JArray "json list"
  | JObject "(string \<times> json) list"

text \<open>
  A text is the list of the bytes of its UTF-8 encoding. \<^verbatim>\<open>str.strip()\<close> is the
  library's and removes the white space at both ends; it is a parameter \<open>strip\<close> of the
  functions below, and what is proved of them holds for every \<open>strip\<close>. To evaluate
  them on concrete texts, \<open>utf8_strip\<close> removes the characters Python counts as white
  space: the ten ASCII characters of \<open>is_space\<close>, and the characters U+0085, U+00A0,
  U+1680, U+2000 to U+200A, U+2028, U+2029, U+202F, U+205F and U+3000, which take two or
  three bytes. \<open>drop_space\<close> removes them at the front for given tables of the
  two-byte and three-byte characters; at the end the bytes are met in reverse.
\<close>

definition is_space :: "char \<Rightarrow> bool" where
  "is_space c = (c \<in> set [CHR 0x09, CHR 0x0A, CHR 0x0B, CHR 0x0C, CHR 0x0D,
                            CHR 0x1C, CHR 0x1D, CHR 0x1E, CHR 0x1F, CHR 0x20])"

definition space2 :: "(char \<times> char) list" where
  "space2 = [(CHR 0xC2, CHR 0x85), (CHR 0xC2, CHR 0xA0)]"

definition space3 :: "(char \<times> char \<times> char) list" where
  "space3 =
     [(CHR 0xE1, CHR 0x9A, CHR 0x80),
      (CHR 0xE2, CHR 0x80, CHR 0x80), (CHR 0xE2, CHR 0x80, CHR 0x81),
      (CHR 0xE2, CHR 0x80, CHR 0x82), (CHR 0xE2, CHR 0x80, CHR 0x83),
      (CHR 0xE2, CHR 0x80, CHR 0x84), (CHR 0xE2, CHR 0x80, CHR 0x85),
      (CHR 0xE2, CHR 0x80, CHR 0x86), (CHR 0xE2, CHR 0x80, CHR 0x87),
      (CHR 0xE2, CHR 0x80, CHR 0x88), (CHR 0xE2, CHR 0x80, CHR 0x89),
      (CHR 0xE2, CHR 0x80, CHR 0x8A), (CHR 0xE2, CHR 0x80, CHR 0xA8),
      (CHR 0xE2, CHR 0x80, CHR 0xA9), (CHR 0xE2, CHR 0x80, CHR 0xAF),
      (CHR 0xE2, CHR 0x81, CHR 0x9F), (CHR 0xE3, CHR 0x80, CHR 0x80)]"

fun drop_space ::
  "(char \<times> char) list \<Rightarrow> (char \<times> char \<times> char) list \<Rightarrow> string \<Rightarrow> string" where
  "drop_space t2 t3 [] = []"
| "drop_space t2 t3 [a] = (if is_space a then [] else [a])"
| "drop_space t2 t3 [a, b] =
     (if is_space a then drop_space t2 t3 [b]
      else if (a, b) \<in> set t2 then []
      else [a, b])"
| "drop_space t2 t3 (a # b # c # s) =
     (if is_space a then drop_space t2 t3 (b # c # s)
      else if (a, b) \<in> set t2 then drop_space t2 t3 (c # s)
      else if (a, b, c) \<in> set t3 then drop_space t2 t3 s
      else a # b # c # s)"

definition utf8_strip :: "string \<Rightarrow> string" where
  "utf8_strip s =
     rev (drop_space (map (\<lambda>(a, b). (b, a)) space2) (map (\<lambda>(a, b, c). (c, b, a)) space3)
            (rev (drop_space space2 space3 s)))"

definition startswith :: "string \<Rightarrow> string \<Rightarrow> bool" where
  "startswith s p = (take (length p) s = p)"

definition endswith :: "string \<Rightarrow> string \<Rightarrow> bool" where
  "endswith s p = (length p \<le> length s \<and> drop (length s - length p) s = p)"

text \<open>
  Lines 325 to 332 of \<^verbatim>\<open>_parse_json_response\<close>: strip, drop a leading fence marker with
  its language tag and a trailing fence marker, strip again.
\<close>

definition clean :: "(string \<Rightarrow> string) \<Rightarrow> string \<Rightarrow> string" where
  "clean strip text =
     (let t1 = strip text;
          t2 = (if startswith t1 ''```json'' then drop 7 t1 else t1);
          t3 = (if endswith t2 ''```'' then take (length t2 - 3) t2 else t2)
      in strip t3)"

text \<open>\<^verbatim>\<open>str.find\<close> of one character: the first index, \<open>None\<close> for \<open>-1\<close>.\<close>

fun find_char :: "char \<Rightarrow> string \<Rightarrow> nat option" where
  "find_char c [] = None"
| "find_char c (x # xs) = (if x = c then Some 0 else map_option Suc (find_char c xs))"

text \<open>
  The two scanning loops (lines 349 to 357 and 359 to 367) are the same loop for the two
  kinds of bracket: \<open>match_close opn cls s i n\<close> runs over the characters \<open>s\<close> from index
  \<open>i\<close> with the running count \<open>n\<close> and returns \<^verbatim>\<open>end_idx\<close>, or \<open>None\<close> when the loop ends
  without setting it. Every character counts, also one inside a string literal.
\<close>

fun match_close :: "char \<Rightarrow> char \<Rightarrow> string \<Rightarrow> nat \<Rightarrow> int \<Rightarrow> nat option" where
  "match_close opn cls [] i n = None"
| "match_close opn cls (c # cs) i n =
     (if c = opn then match_close opn cls cs (Suc i) (n + 1)
      else if c = cls then
        (if n - 1 = 0 then Some (Suc i) else match_close opn cls cs (Suc i) (n - 1))
      else match_close opn cls cs (Suc i) n)"

text \<open>
  Lines 342 to 370: the bracketed substring \<^verbatim>\<open>json_str\<close> the fallback hands to
  \<^verbatim>\<open>json.loads\<close>, if it finds one. The search for \<open>{\<close> happens only when the text has no
  \<open>[\<close> at all.
\<close>

definition candidate :: "string \<Rightarrow> string option" where
  "candidate cleaned =
     (case (case find_char CHR ''['' cleaned of
              None \<Rightarrow> find_char CHR ''{'' cleaned
            | Some i \<Rightarrow> Some i) of
        None \<Rightarrow> None
      | Some start_idx \<Rightarrow>
         (case (if cleaned ! start_idx = CHR ''[''
                then match_close CHR ''['' CHR '']'' (drop start_idx cleaned) start_idx 0
                else match_close CHR ''{'' CHR ''}'' (drop start_idx cleaned) start_idx 0) of
            None \<Rightarrow> None
          | Some end_idx \<Rightarrow>
             if end_idx > start_idx
             then Some (take (end_idx - start_idx) (drop start_idx cleaned))
             else None))"

fun is_decode_error :: "exn \<Rightarrow> bool" where
  "is_decode_error (JSONDecodeError m) = True"
| "is_decode_error e = False"

text \<open>
  The body of the outer \<^verbatim>\<open>try\<close> (lines 334 to 375). \<^verbatim>\<open>json.loads\<close> is the standard
  library's and is a parameter \<open>loads\<close> here: \<open>Inr\<close> of the value, or \<open>Inl\<close> of the
  exception it raises. The inner \<^verbatim>\<open>try\<close> catches \<^verbatim>\<open>json.JSONDecodeError\<close> only; the
  second call of \<^verbatim>\<open>json.loads\<close> is not guarded.
\<close>

definition extract_json :: "(string \<Rightarrow> exn + json) \<Rightarrow> string \<Rightarrow> exn + json" where
  "extract_json loads cleaned =
     (case loads cleaned of
        Inr parsed \<Rightarrow> Inr parsed
      | Inl e \<Rightarrow>
         if is_decode_error e then
           (case candidate cleaned of
              Some json_str \<Rightarrow> loads json_str
            | None \<Rightarrow> Inr (JObject []))
         else Inl e)"

text \<open>
  \<^verbatim>\<open>_parse_json_response\<close> (lines 321 to 380): the outer \<^verbatim>\<open>except Exception\<close> turns every
  exception of the body into the empty dictionary. \<open>Inl\<close> would be an exception that
  leaves the function.
\<close>

definition parse_json_response ::
  "(string \<Rightarrow> string) \<Rightarrow> (string \<Rightarrow> exn + json) \<Rightarrow> string \<Rightarrow> exn + json" where
  "parse_json_response strip loads text =
     (case extract_json loads (clean strip text) of
        Inl e \<Rightarrow> Inr (JObject [])
      | Inr v \<Rightarrow> Inr v)"

subsection \<open>A model of \<^verbatim>\<open>json.loads\<close> on a fragment of JSON\<close>

text \<open>
  The theorems about the extractor hold for every \<open>loads\<close>. To evaluate the extractor on
  concrete texts, \<open>json_loads\<close> models \<^verbatim>\<open>json.loads\<close> on the JSON texts built from
  \<^verbatim>\<open>null\<close>, \<^verbatim>\<open>true\<close>, \<^verbatim>\<open>false\<close>, integers, strings without escapes, arrays and objects,
  with JSON's white space between tokens. It rejects what is not JSON; it also rejects
  JSON outside the fragment (floats, escapes, \<^verbatim>\<open>NaN\<close>), so it is used only on texts of the
  fragment. The error messages are not those of Python. The first argument of
  the parsing functions bounds the number of nested calls; \<open>json_loads\<close> starts them with
  more than a text of that length can need.
\<close>

definition json_ws :: "char \<Rightarrow> bool" where
  "json_ws c = (c \<in> set [CHR 0x20, CHR 0x09, CHR 0x0A, CHR 0x0D])"

definition skip_ws :: "string \<Rightarrow> string" where
  "skip_ws s = dropWhile json_ws s"

definition expect :: "char \<Rightarrow> string \<Rightarrow> string option" where
  "expect ch s = (case s of [] \<Rightarrow> None | c # r \<Rightarrow> if c = ch then Some r else None)"

fun scan_string :: "string \<Rightarrow> string \<Rightarrow> (string \<times> string) option" where
  "scan_string acc [] = None"
| "scan_string acc (c # cs) =
     (if c = CHR 0x22 then Some (rev acc, cs)
      else if c = CHR 0x5C \<or> (of_char c :: nat) < 32 then None
      else scan_string (c # acc) cs)"

definition is_digit :: "char \<Rightarrow> bool" where
  "is_digit c = (48 \<le> (of_char c :: nat) \<and> (of_char c :: nat) \<le> 57)"

definition digits_value :: "string \<Rightarrow> int" where
  "digits_value ds = foldl (\<lambda>n c. 10 * n + (int (of_char c) - 48)) 0 ds"

definition scan_int :: "string \<Rightarrow> (int \<times> string) option" where
  "scan_int s =
     (let neg = (s \<noteq> [] \<and> hd s = CHR ''-'');
          s1 = (if neg then tl s else s);
          ds = takeWhile is_digit s1;
          rest = dropWhile is_digit s1
      in if ds = [] \<or> (1 < length ds \<and> hd ds = CHR ''0'')
            \<or> (rest \<noteq> [] \<and> hd rest \<in> set [CHR ''.'', CHR ''e'', CHR ''E''])
         then None
         else Some ((if neg then - digits_value ds else digits_value ds), rest))"

text \<open>\<^verbatim>\<open>d[k] = v\<close> on a dictionary: a key keeps its place, its value is replaced.\<close>

fun dict_set :: "(string \<times> json) list \<Rightarrow> string \<Rightarrow> json \<Rightarrow> (string \<times> json) list" where
  "dict_set [] k v = [(k, v)]"
| "dict_set ((k', v') # kvs) k v =
     (if k' = k then (k, v) # kvs else (k', v') # dict_set kvs k v)"

fun parse_value :: "nat \<Rightarrow> string \<Rightarrow> (json \<times> string) option"
and parse_elements :: "nat \<Rightarrow> json list \<Rightarrow> string \<Rightarrow> (json list \<times> string) option"
and parse_members ::
  "nat \<Rightarrow> (string \<times> json) list \<Rightarrow> string \<Rightarrow> ((string \<times> json) list \<times> string) option"
where
  "parse_value 0 s = None"
| "parse_value (Suc f) s =
     (case s of
        [] \<Rightarrow> None
      | c # cs \<Rightarrow>
         if c = CHR 0x22 then
           (case scan_string [] cs of None \<Rightarrow> None | Some (str, r) \<Rightarrow> Some (JString str, r))
         else if c = CHR ''['' then
           (case expect CHR '']'' (skip_ws cs) of
              Some r \<Rightarrow> Some (JArray [], r)
            | None \<Rightarrow>
               (case parse_elements f [] (skip_ws cs) of
                  None \<Rightarrow> None
                | Some (vs, r) \<Rightarrow> Some (JArray vs, r)))
         else if c = CHR ''{'' then
           (case expect CHR ''}'' (skip_ws cs) of
              Some r \<Rightarrow> Some (JObject [], r)
            | None \<Rightarrow>
               (case parse_members f [] (skip_ws cs) of
                  None \<Rightarrow> None
                | Some (kvs, r) \<Rightarrow> Some (JObject kvs, r)))
         else if startswith s ''null'' then Some (JNull, drop 4 s)
         else if startswith s ''true'' then Some (JBool True, drop 4 s)
         else if startswith s ''false'' then Some (JBool False, drop 5 s)
         else (case scan_int s of None \<Rightarrow> None | Some (n, r) \<Rightarrow> Some (JInt n, r)))"
| "parse_elements 0 acc s = None"
| "parse_elements (Suc f) acc s =
     (case parse_value f s of
        None \<Rightarrow> None
      | Some (v, r) \<Rightarrow>
         (case expect CHR '','' (skip_ws r) of
            Some r' \<Rightarrow> parse_elements f (acc @ [v]) (skip_ws r')
          | None \<Rightarrow>
             (case expect CHR '']'' (skip_ws r) of
                Some r' \<Rightarrow> Some (acc @ [v], r')
              | None \<Rightarrow> None)))"
| "parse_members 0 acc s = None"
| "parse_members (Suc f) acc s =
     (case expect CHR 0x22 s of
        None \<Rightarrow> None
      | Some cs \<Rightarrow>
         (case scan_string [] cs of
            None \<Rightarrow> None
          | Some (k, r) \<Rightarrow>
             (case expect CHR '':'' (skip_ws r) of
                None \<Rightarrow> None
              | Some r1 \<Rightarrow>
                 (case parse_value f (skip_ws r1) of
                    None \<Rightarrow> None
                  | Some (v, r2) \<Rightarrow>
                     (case expect CHR '','' (skip_ws r2) of
                        Some r3 \<Rightarrow> parse_members f (dict_set acc k v) (skip_ws r3)
                      | None \<Rightarrow>
                         (case expect CHR ''}'' (skip_ws r2) of
                            Some r3 \<Rightarrow> Some (dict_set acc k v, r3)
                          | None \<Rightarrow> None))))))"

definition json_loads :: "string \<Rightarrow> exn + json" where
  "json_loads s =
     (case parse_value (2 * length s + 2) (skip_ws s) of
        None \<Rightarrow> Inl (JSONDecodeError ''Expecting value'')
      | Some (v, r) \<Rightarrow>
         if skip_ws r = [] then Inr v else Inl (JSONDecodeError ''Extra data''))"

subsection \<open>Notions used to state the properties of the extractor\<close>

text \<open>
  The nesting depth of a text for one kind of bracket: opening brackets minus closing
  ones. A span closes at its end when its depth is 0 and every proper, non-empty prefix
  has a positive depth; a text never closes when no non-empty prefix has depth 0.
\<close>

definition depth :: "char \<Rightarrow> char \<Rightarrow> string \<Rightarrow> int" where
  "depth opn cls s =
     int (length (filter (\<lambda>c. c = opn) s)) - int (length (filter (\<lambda>c. c = cls) s))"

definition closes_at_end :: "char \<Rightarrow> char \<Rightarrow> string \<Rightarrow> bool" where
  "closes_at_end opn cls j =
     (depth opn cls j = 0 \<and> list_all (\<lambda>k. 0 < depth opn cls (take k j)) [1..<length j])"

definition never_closes :: "char \<Rightarrow> char \<Rightarrow> string \<Rightarrow> bool" where
  "never_closes opn cls s = list_all (\<lambda>k. depth opn cls (take k s) \<noteq> 0) [1..<Suc (length s)]"

section \<open>The operation executor (server/gemini_agent.py)\<close>

text \<open>
  A tool of the registry, as the executor sees it: \<^verbatim>\<open>self.tools[name].run(parameters)\<close>
  takes the parameters of the call and returns the tool's text or raises, and may change
  the world \<open>'w\<close> it works on (the database and the storage layer).
\<close>

type_synonym 'w handler = "json \<Rightarrow> 'w \<Rightarrow> (exn + reply) \<times> 'w"

text \<open>
  The texts the executor puts into a result:
  \<^item> \<open>ToolText r\<close>: the text \<open>r\<close> the tool returned
  \<^item> \<open>NonPositiveRestock q\<close>: "Cannot use restock_book with non-positive quantity: q"
  \<^item> \<open>ExecutionError n e\<close>: "Error executing tool n: e"
  \<^item> \<open>UnknownTool n\<close>: "Unknown tool: n"
  and the dictionaries it appends to \<^verbatim>\<open>results\<close> and to \<^verbatim>\<open>self.tool_usage_history\<close>.
\<close>

datatype result_text =
    ToolText reply
  | NonPositiveRestock "json option"
  | ExecutionError json exn
  | UnknownTool json

record operation_result =
  res_tool_name :: json
  res_result :: result_text
  res_success :: bool

record usage_record =
  use_tool_name :: json
  use_parameters :: json
  use_result :: result_text
  use_success :: bool

text \<open>
  The two attributes of \<^verbatim>\<open>GeminiAgent\<close> the executor uses.
\<close>

record 'w agent =
  tools :: "string \<rightharpoonup> 'w handler"
  tool_usage_history :: "usage_record list"

text \<open>
  \<^verbatim>\<open>d.get(k)\<close> on a value that came out of \<^verbatim>\<open>json.loads\<close>: only a dictionary has the
  method. \<^verbatim>\<open>tool_name in self.tools\<close> hashes the name, so a list or a dictionary raises
  \<open>TypeError\<close>; a name that is not a string is in no registry.
\<close>

fun py_get :: "json \<Rightarrow> string \<Rightarrow> exn + json option" where
  "py_get (JObject kvs) k = Inr (map_of kvs k)"
| "py_get v k = Inl (AttributeError ''object has no attribute get'')"

fun lookup_tool :: "'w agent \<Rightarrow> json \<Rightarrow> exn + 'w handler option" where
  "lookup_tool ag (JString n) = Inr (tools ag n)"
| "lookup_tool ag (JArray xs) = Inl (TypeError ''unhashable type: list'')"
| "lookup_tool ag (JObject kvs) = Inl (TypeError ''unhashable type: dict'')"
| "lookup_tool ag v = Inr None"

text \<open>
  \<^verbatim>\<open>parameters.get("quantity", 0) <= 0\<close> (line 136): integers and booleans compare with
  0, every other value raises \<open>TypeError\<close>.
\<close>

fun non_positive :: "json \<Rightarrow> exn + bool" where
  "non_positive (JInt q) = Inr (q \<le> 0)"
| "non_positive (JBool b) = Inr (\<not> b)"
| "non_positive v = Inl (TypeError ''<= not supported'')"

definition restock_check :: "json \<Rightarrow> exn + bool" where
  "restock_check parameters =
     (case py_get parameters ''quantity'' of
        Inl e \<Rightarrow> Inl e
      | Inr None \<Rightarrow> non_positive (JInt 0)
      | Inr (Some q) \<Rightarrow> non_positive q)"

definition quantity_shown :: "json \<Rightarrow> json option" where
  "quantity_shown parameters = (case py_get parameters ''quantity'' of Inl e \<Rightarrow> None | Inr q \<Rightarrow> q)"

definition record_usage ::
  "'w agent \<Rightarrow> json \<Rightarrow> json \<Rightarrow> result_text \<Rightarrow> bool \<Rightarrow> 'w agent" where
  "record_usage ag tool_name parameters r ok =
     ag\<lparr>tool_usage_history := tool_usage_history ag @
          [\<lparr>use_tool_name = tool_name, use_parameters = parameters,
            use_result = r, use_success = ok\<rparr>]\<rparr>"

text \<open>
  \<^verbatim>\<open>tool_decision.get("parameters", {})\<close>, once \<^verbatim>\<open>tool_decision.get("tool_name")\<close> has
  shown the decision to be a dictionary.
\<close>

definition decision_parameters :: "json \<Rightarrow> json" where
  "decision_parameters tool_decision =
     (case py_get tool_decision ''parameters'' of
        Inr (Some p) \<Rightarrow> p
      | _ \<Rightarrow> JObject [])"

text \<open>
  One pass through the loop body of \<^verbatim>\<open>execute_tools\<close> (lines 128 to 190). The two
  \<^verbatim>\<open>.get\<close> calls and the registry test stand outside the \<^verbatim>\<open>try\<close>: their exception
  leaves the executor (\<open>Inl\<close>). The usage record is appended after the tool has run and
  in the \<^verbatim>\<open>except\<close> clause; the rejected restock (\<^verbatim>\<open>continue\<close>, line 144) and the unknown
  tool append a result only.
\<close>

definition execute_tool ::
  "'w agent \<Rightarrow> json \<Rightarrow> 'w \<Rightarrow> (exn + operation_result) \<times> 'w agent \<times> 'w" where
  "execute_tool ag tool_decision w =
     (case py_get tool_decision ''tool_name'' of
        Inl e \<Rightarrow> (Inl e, ag, w)
      | Inr name \<Rightarrow>
         (let tool_name = (case name of None \<Rightarrow> JNull | Some n \<Rightarrow> n);
              parameters = decision_parameters tool_decision
          in case lookup_tool ag tool_name of
               Inl e \<Rightarrow> (Inl e, ag, w)
             | Inr None \<Rightarrow>
                 (Inr \<lparr>res_tool_name = tool_name, res_result = UnknownTool tool_name,
                       res_success = False\<rparr>, ag, w)
             | Inr (Some run) \<Rightarrow>
                 (case (if tool_name = JString ''restock_book'' then restock_check parameters
                        else Inr False) of
                    Inr True \<Rightarrow>
                      (Inr \<lparr>res_tool_name = tool_name,
                            res_result = NonPositiveRestock (quantity_shown parameters),
                            res_success = False\<rparr>, ag, w)
                  | Inr False \<Rightarrow>
                      (case run parameters w of
                         (Inr tool_result, w') \<Rightarrow>
                           (Inr \<lparr>res_tool_name = tool_name, res_result = ToolText tool_result,
                                 res_success = True\<rparr>,
                            record_usage ag tool_name parameters (ToolText tool_result) True, w')
                       | (Inl e, w') \<Rightarrow>
                           (Inr \<lparr>res_tool_name = tool_name,
                                 res_result = ExecutionError tool_name e, res_success = False\<rparr>,
                            record_usage ag tool_name parameters (ExecutionError tool_name e) False,
                            w'))
                  | Inl e \<Rightarrow>
                      (Inr \<lparr>res_tool_name = tool_name,
                            res_result = ExecutionError tool_name e, res_success = False\<rparr>,
                       record_usage ag tool_name parameters (ExecutionError tool_name e) False,
                       w))))"

fun execute_tools ::
  "'w agent \<Rightarrow> json list \<Rightarrow> 'w \<Rightarrow> (exn + operation_result list) \<times> 'w agent \<times> 'w" where
  "execute_tools ag [] w = (Inr [], ag, w)"
| "execute_tools ag (d # ds) w =
     (case execute_tool ag d w of
        (Inl e, ag', w') \<Rightarrow> (Inl e, ag', w')
      | (Inr r, ag', w') \<Rightarrow>
         (case execute_tools ag' ds w' of
            (Inl e, ag'', w'') \<Rightarrow> (Inl e, ag'', w'')
          | (Inr rs, ag'', w'') \<Rightarrow> (Inr (r # rs), ag'', w'')))"

subsection \<open>The registry\<close>

text \<open>
  \<^verbatim>\<open>run\<close> binds the parameters to the tool's arguments through its \<^verbatim>\<open>args_schema\<close> and
  raises a validation error when they do not fit; the binding is the library's. It is
  modelled for the parameters it hands to the tool as they are: a 64-bit integer
  \<^verbatim>\<open>customer_id\<close> with a list of item dictionaries whose \<^verbatim>\<open>isbn\<close> is a string and whose
  \<^verbatim>\<open>quantity\<close> is an integer (or absent, or \<^verbatim>\<open>null\<close>); a string \<^verbatim>\<open>isbn\<close> with a
  64-bit integer \<^verbatim>\<open>quantity\<close>, which the schema wants to be at least 1 (\<^verbatim>\<open>ge=1\<close>); a
  string \<^verbatim>\<open>isbn\<close> with an integer \<^verbatim>\<open>new_price\<close> of at most \<open>2 ^ 53\<close>, which the schema
  wants to be at least 0 (\<^verbatim>\<open>ge=0\<close>) and turns into the float of the same value. What a
  tool does on other parameters (values the schema converts, item values of other
  types, which \<^verbatim>\<open>Dict[str, Any]\<close> lets pass, missing fields, larger integers), on the
  calls for which \<open>restock_book_tool\<close> and \<open>update_price_tool\<close> give \<open>None\<close>, and what
  the five read-only tools do, is a parameter: \<open>other n\<close> is the \<^verbatim>\<open>run\<close> of the tool
  registered as \<open>n\<close> there. What is proved below holds for every \<open>other\<close>.
\<close>

fun item_field_str :: "json option \<Rightarrow> string option option" where
  "item_field_str None = Some None"
| "item_field_str (Some JNull) = Some None"
| "item_field_str (Some (JString s)) = Some (Some s)"
| "item_field_str (Some v) = None"

fun item_field_int :: "json option \<Rightarrow> int option option" where
  "item_field_int None = Some None"
| "item_field_int (Some JNull) = Some None"
| "item_field_int (Some (JInt q)) = Some (Some q)"
| "item_field_int (Some v) = None"

fun line_of_json :: "json \<Rightarrow> line_request option" where
  "line_of_json (JObject kvs) =
     (case (item_field_str (map_of kvs ''isbn''), item_field_int (map_of kvs ''quantity'')) of
        (Some i, Some q) \<Rightarrow> Some \<lparr>isbn = i, quantity = q\<rparr>
      | _ \<Rightarrow> None)"
| "line_of_json v = None"

fun lines_of_json :: "json list \<Rightarrow> line_request list option" where
  "lines_of_json [] = Some []"
| "lines_of_json (x # xs) =
     (case (line_of_json x, lines_of_json xs) of
        (Some l, Some ls) \<Rightarrow> Some (l # ls)
      | _ \<Rightarrow> None)"

fun order_args :: "json \<Rightarrow> (int \<times> line_request list) option" where
  "order_args (JObject kvs) =
     (case (map_of kvs ''customer_id'', map_of kvs ''items'') of
        (Some (JInt c), Some (JArray xs)) \<Rightarrow>
          if sqlite_int c
          then (case lines_of_json xs of None \<Rightarrow> None | Some ls \<Rightarrow> Some (c, ls))
          else None
      | _ \<Rightarrow> None)"
| "order_args v = None"

definition create_order_run :: "(string \<Rightarrow> world handler) \<Rightarrow> world handler" where
  "create_order_run other parameters w =
     (case order_args parameters of
        None \<Rightarrow> other ''create_order'' parameters w
      | Some (customer_id, items) \<Rightarrow> create_order_safe customer_id items w)"

fun restock_args :: "json \<Rightarrow> (string \<times> int) option" where
  "restock_args (JObject kvs) =
     (case (map_of kvs ''isbn'', map_of kvs ''quantity'') of
        (Some (JString i), Some (JInt q)) \<Rightarrow> if sqlite_int q then Some (i, q) else None
      | _ \<Rightarrow> None)"
| "restock_args v = None"

definition restock_book_run :: "(string \<Rightarrow> world handler) \<Rightarrow> world handler" where
  "restock_book_run other parameters w =
     (case restock_args parameters of
        None \<Rightarrow> other ''restock_book'' parameters w
      | Some (i, q) \<Rightarrow>
         if q < 1 then (Inl (ValidationError ''RestockBookInput''), w)
         else
           (case restock_book_tool i q w of
              None \<Rightarrow> other ''restock_book'' parameters w
            | Some (r, w') \<Rightarrow> (Inr r, w')))"

fun price_args :: "json \<Rightarrow> (string \<times> int) option" where
  "price_args (JObject kvs) =
     (case (map_of kvs ''isbn'', map_of kvs ''new_price'') of
        (Some (JString i), Some (JInt p)) \<Rightarrow> if p \<le> 2 ^ 53 then Some (i, p) else None
      | _ \<Rightarrow> None)"
| "price_args v = None"

definition update_price_run :: "(string \<Rightarrow> world handler) \<Rightarrow> world handler" where
  "update_price_run other parameters w =
     (case price_args parameters of
        None \<Rightarrow> other ''update_price'' parameters w
      | Some (i, p) \<Rightarrow>
         if p < 0 then (Inl (ValidationError ''UpdatePriceInput''), w)
         else
           (case update_price_tool i (FOfInt p) w of
              None \<Rightarrow> other ''update_price'' parameters w
            | Some (r, w') \<Rightarrow> (Inr r, w')))"

text \<open>
  \<open>gemini_tools\<close> is the dictionary \<^verbatim>\<open>self.tools\<close> of lines 38 to 47.
\<close>

definition gemini_tools :: "(string \<Rightarrow> world handler) \<Rightarrow> string \<rightharpoonup> world handler" where
  "gemini_tools other =
     map_of [(''find_books'', other ''find_books''),
             (''create_order'', create_order_run other),
             (''restock_book'', restock_book_run other),
             (''update_price'', update_price_run other),
             (''order_status'', other ''order_status''),
             (''inventory_summary'', other ''inventory_summary''),
             (''search_knowledge_base'', other ''search_knowledge_base''),
             (''list_customers'', other ''list_customers'')]"

definition gemini_agent :: "(string \<Rightarrow> world handler) \<Rightarrow> world agent" where
  "gemini_agent other = \<lparr>tools = gemini_tools other, tool_usage_history = []\<rparr>"

text \<open>
  The scenarios below call the three modelled tools only, on parameters of the modelled
  shapes, so their outcome is the same for every \<open>other\<close>; they are run with the one
  that raises and leaves the world as it is.
\<close>

definition unmodelled :: "string \<Rightarrow> world handler" where
  "unmodelled n parameters w = (Inl (ValidationError n), w)"

text \<open>
  One element of the list the planner returns, for a string name and a parameter dictionary.
\<close>

definition tool_call :: "string \<Rightarrow> (string \<times> json) list \<Rightarrow> json" where
  "tool_call n ps = JObject [(''tool_name'', JString n), (''parameters'', JObject ps)]"

subsection \<open>Notions used to state the properties of the executor\<close>

text \<open>
  An operation call: a dictionary whose name can be looked up in the registry (it is not
  a list or a dictionary). A call is recorded when it names a registered tool and, if
  that tool is \<^verbatim>\<open>restock_book\<close>, the executor's own check of the quantity does not
  reject it; it is run when that check accepts it. A validation failure is one of the
  five messages the tools return for a bad request. \<open>outcome n x\<close> is the result of a
  call of the tool \<open>n\<close> whose run gave \<open>x\<close>, a text or an exception.
\<close>

fun is_call :: "json \<Rightarrow> bool" where
  "is_call (JObject kvs) =
     (case map_of kvs ''tool_name'' of
        Some (JArray xs) \<Rightarrow> False
      | Some (JObject k) \<Rightarrow> False
      | _ \<Rightarrow> True)"
| "is_call v = False"

definition recorded :: "'w agent \<Rightarrow> json \<Rightarrow> bool" where
  "recorded ag d =
     (case py_get d ''tool_name'' of
        Inr (Some (JString n)) \<Rightarrow>
          tools ag n \<noteq> None
          \<and> (n = ''restock_book'' \<longrightarrow> restock_check (decision_parameters d) \<noteq> Inr True)
      | _ \<Rightarrow> False)"



fun is_validation_failure :: "reply \<Rightarrow> bool" where
  "is_validation_failure (CustomerNotFound c) = True"
| "is_validation_failure ItemFieldsMissing = True"
| "is_validation_failure (QuantityNotPositive i) = True"
| "is_validation_failure (BookNotFound i) = True"
| "is_validation_failure (NotEnoughStock t a r) = True"
| "is_validation_failure r = False"

section \<open>The request orchestrator (server/gemini_agent.py)\<close>

text \<open>
  The completion service and the other collaborators of the pipeline. A prompt is
  identified by its kind and the values put into it; \<^verbatim>\<open>generate_content(prompt).text\<close>
  returns a text or raises. \<open>json_decoder\<close> is \<^verbatim>\<open>json.loads\<close> and \<open>str_strip\<close> is
  \<^verbatim>\<open>str.strip\<close>. \<open>shows_lock\<close> says whether
  the lower-cased text of a result contains "database is locked" or "database is busy":
  the texts are not spelled out in characters here, so the test is a parameter.
\<close>

datatype prompt =
    AnalysisPrompt string
  | ParameterPrompt string string
  | FinalPrompt string "operation_result list" json

record env =
  generate_content :: "prompt \<Rightarrow> exn + string"
  json_decoder :: "string \<Rightarrow> exn + json"
  str_strip :: "string \<Rightarrow> string"
  shows_lock :: "result_text \<Rightarrow> bool"

text \<open>
  \<^verbatim>\<open>str(e)\<close>, the truth value of a JSON value, and \<^verbatim>\<open>dict.setdefault\<close>.
\<close>

fun str_exn :: "exn \<Rightarrow> string" where
  "str_exn (NameError m) = m"
| "str_exn (TypeError m) = m"
| "str_exn (AttributeError m) = m"
| "str_exn (ValidationError m) = m"
| "str_exn (OverflowError m) = m"
| "str_exn (StorageError m) = m"
| "str_exn (JSONDecodeError m) = m"
| "str_exn (CompletionError m) = m"

fun truthy :: "json \<Rightarrow> bool" where
  "truthy JNull = False"
| "truthy (JBool b) = b"
| "truthy (JInt n) = (n \<noteq> 0)"
| "truthy (JString s) = (s \<noteq> [])"
| "truthy (JArray xs) = (xs \<noteq> [])"
| "truthy (JObject kvs) = (kvs \<noteq> [])"

definition setdefault :: "(string \<times> json) list \<Rightarrow> string \<Rightarrow> json \<Rightarrow> (string \<times> json) list" where
  "setdefault kvs k v = (if map_of kvs k = None then kvs @ [(k, v)] else kvs)"

text \<open>
  \<^verbatim>\<open>analyze_request\<close> (lines 54 to 121): every exception ends in the dictionary of the
  \<^verbatim>\<open>except\<close> clause, so the function returns a dictionary and never raises.
\<close>

definition analysis_error :: "exn \<Rightarrow> json" where
  "analysis_error e =
     JObject [(''needs_tools'', JBool False), (''tools_needed'', JArray []),
              (''reasoning'', JString (''Error during analysis: '' @ str_exn e)),
              (''action_type'', JString ''error'')]"

definition analyze_request :: "env \<Rightarrow> string \<Rightarrow> json" where
  "analyze_request env user_request =
     (case generate_content env (AnalysisPrompt user_request) of
        Inl e \<Rightarrow> analysis_error e
      | Inr response_text \<Rightarrow>
         (case parse_json_response (str_strip env) (json_decoder env) response_text of
            Inl e \<Rightarrow> analysis_error e
          | Inr analysis_result \<Rightarrow>
             (let first = (case analysis_result of
                             JArray [] \<Rightarrow> JObject []
                           | JArray (x # xs) \<Rightarrow> x
                           | v \<Rightarrow> v);
                  kvs = (case first of JObject kvs \<Rightarrow> kvs | v \<Rightarrow> [])
              in JObject
                   (setdefault
                     (setdefault
                       (setdefault
                         (setdefault kvs ''needs_tools'' (JBool False))
                         ''tools_needed'' (JArray []))
                       ''reasoning'' (JString ''Analysis completed''))
                     ''action_type'' (JString ''other'')))))"

text \<open>
  \<^verbatim>\<open>", ".join(tools_needed)\<close> (line 199): a list of strings, a string (its characters) and
  a dictionary (its keys) can be joined; a list with another element and a value that
  cannot be iterated raise \<open>TypeError\<close>.
\<close>

fun join_strings :: "string list \<Rightarrow> string" where
  "join_strings [] = []"
| "join_strings [x] = x"
| "join_strings (x # y # ys) = x @ '', '' @ join_strings (y # ys)"

fun is_str :: "json \<Rightarrow> bool" where
  "is_str (JString s) = True"
| "is_str v = False"

fun the_str :: "json \<Rightarrow> string" where
  "the_str (JString s) = s"
| "the_str v = []"

fun py_join :: "json \<Rightarrow> exn + string" where
  "py_join (JArray xs) =
     (if list_all is_str xs then Inr (join_strings (map the_str xs))
      else Inl (TypeError ''sequence item: expected str instance''))"
| "py_join (JString s) = Inr (join_strings (map (\<lambda>c. [c]) s))"
| "py_join (JObject kvs) = Inr (join_strings (map fst kvs))"
| "py_join v = Inl (TypeError ''can only join an iterable'')"

text \<open>
  \<^verbatim>\<open>determine_tool_parameters\<close> (lines 194 to 266). The join stands before the \<^verbatim>\<open>try\<close>, so
  its \<open>TypeError\<close> leaves the function; inside the \<^verbatim>\<open>try\<close> every exception gives the
  empty list, among them the \<open>AttributeError\<close> of \<^verbatim>\<open>t.get('tool_name')\<close> in the log line
  when an element of the plan is not a dictionary.
\<close>

fun is_dict :: "json \<Rightarrow> bool" where
  "is_dict (JObject kvs) = True"
| "is_dict v = False"

definition determine_tool_parameters :: "env \<Rightarrow> string \<Rightarrow> json \<Rightarrow> exn + json list" where
  "determine_tool_parameters env user_request tools_needed =
     (if \<not> truthy tools_needed then Inr []
      else
        (case py_join tools_needed of
           Inl e \<Rightarrow> Inl e
         | Inr tools_list \<Rightarrow>
            (case generate_content env (ParameterPrompt user_request tools_list) of
               Inl e \<Rightarrow> Inr []
             | Inr response_text \<Rightarrow>
                (case parse_json_response (str_strip env) (json_decoder env) response_text of
                   Inl e \<Rightarrow> Inr []
                 | Inr parsed \<Rightarrow>
                    (let tool_decisions =
                           (case parsed of
                              JNull \<Rightarrow> []
                            | JObject kvs \<Rightarrow> [parsed]
                            | JArray xs \<Rightarrow> xs
                            | v \<Rightarrow> [])
                     in if list_all is_dict tool_decisions then Inr tool_decisions
                        else Inr [])))))"

text \<open>
  The final texts: the completion's answer, the fixed "high database traffic" message,
  the fixed apology of \<^verbatim>\<open>generate_final_response\<close>, and the message of the entry point,
  "I encountered an error while processing your request: e. Please try again.".
\<close>

datatype final_text = Generated string | HighTraffic | Apology | ProcessingError exn

definition generate_final_response ::
  "env \<Rightarrow> string \<Rightarrow> operation_result list \<Rightarrow> json \<Rightarrow> exn + final_text" where
  "generate_final_response env user_request results an =
     (if list_ex (\<lambda>r. shows_lock env (res_result r)) results then Inr HighTraffic
      else
        (case py_get an ''reasoning'' of
           Inl e \<Rightarrow> Inl e
         | Inr reasoning \<Rightarrow>
            (case generate_content env
                    (FinalPrompt user_request results
                       (case reasoning of None \<Rightarrow> JString ''N/A'' | Some v \<Rightarrow> v)) of
               Inl e \<Rightarrow> Inr Apology
             | Inr response_text \<Rightarrow> Inr (Generated (str_strip env response_text)))))"

text \<open>
  The dictionary \<^verbatim>\<open>process_request\<close> returns.
\<close>

record response =
  final_response :: final_text
  analysis :: json
  tools_used :: "json list"
  tool_results :: "operation_result list"
  needed_tools :: json

text \<open>
  Steps 3 and 4 of \<^verbatim>\<open>process_request\<close> (lines 395 to 404): the plan and the results, or
  the exception of the stage that raised.
\<close>

definition plan_and_execute ::
  "env \<Rightarrow> 'w agent \<Rightarrow> string \<Rightarrow> json \<Rightarrow> json \<Rightarrow> 'w
     \<Rightarrow> (exn + json list \<times> operation_result list) \<times> 'w agent \<times> 'w" where
  "plan_and_execute env ag user_request needs_tools tools_needed w =
     (if truthy needs_tools \<and> truthy tools_needed then
        (case determine_tool_parameters env user_request tools_needed of
           Inl e \<Rightarrow> (Inl e, ag, w)
         | Inr tool_decisions \<Rightarrow>
            if tool_decisions \<noteq> [] then
              (case execute_tools ag tool_decisions w of
                 (Inl e, ag', w') \<Rightarrow> (Inl e, ag', w')
               | (Inr results, ag', w') \<Rightarrow> (Inr (tool_decisions, results), ag', w'))
            else (Inr (tool_decisions, []), ag, w))
      else (Inr ([], []), ag, w))"

text \<open>
  The \<^verbatim>\<open>try\<close> block of \<^verbatim>\<open>process_request\<close> (lines 388 to 416), the dictionary of its
  \<^verbatim>\<open>except\<close> clause (lines 420 to 426), and the function itself. The agent and the world
  are returned as the stages left them: what the executor did before an exception is not
  undone.
\<close>

definition process_body ::
  "env \<Rightarrow> 'w agent \<Rightarrow> string \<Rightarrow> 'w \<Rightarrow> (exn + response) \<times> 'w agent \<times> 'w" where
  "process_body env ag user_request w =
     (let an = analyze_request env user_request in
      case py_get an ''needs_tools'' of
        Inl e \<Rightarrow> (Inl e, ag, w)
      | Inr nt \<Rightarrow>
         (case py_get an ''tools_needed'' of
            Inl e \<Rightarrow> (Inl e, ag, w)
          | Inr tn \<Rightarrow>
             (let needs_tools = (case nt of None \<Rightarrow> JBool False | Some v \<Rightarrow> v);
                  tools_needed = (case tn of None \<Rightarrow> JArray [] | Some v \<Rightarrow> v)
              in case plan_and_execute env ag user_request needs_tools tools_needed w of
                   (Inl e, ag', w') \<Rightarrow> (Inl e, ag', w')
                 | (Inr (tool_decisions, results), ag', w') \<Rightarrow>
                     (case generate_final_response env user_request results an of
                        Inl e \<Rightarrow> (Inl e, ag', w')
                      | Inr final \<Rightarrow>
                          (Inr \<lparr>final_response = final, analysis = an,
                                tools_used = tool_decisions, tool_results = results,
                                needed_tools = needs_tools\<rparr>, ag', w')))))"

definition error_response :: "exn \<Rightarrow> response" where
  "error_response e =
     \<lparr>final_response = ProcessingError e,
      analysis = JObject [(''error'', JString (str_exn e))],
      tools_used = [], tool_results = [], needed_tools = JBool False\<rparr>"

definition process_request ::
  "env \<Rightarrow> 'w agent \<Rightarrow> string \<Rightarrow> 'w \<Rightarrow> (exn + response) \<times> 'w agent \<times> 'w" where
  "process_request env ag user_request w =
     (case process_body env ag user_request w of
        (Inl e, ag', w') \<Rightarrow> (Inr (error_response e), ag', w')
      | (Inr r, ag', w') \<Rightarrow> (Inr r, ag', w'))"

text \<open>
  A completion service for the scenarios: its analysis asks for \<^verbatim>\<open>find_books\<close>, and its
  plan gives the tool name as a list.
\<close>

definition demo_env :: "prompt \<Rightarrow> exn + string" where
  \<open>demo_env p =
     (case p of
        AnalysisPrompt u \<Rightarrow> Inr ''{"needs_tools": true, "tools_needed": ["find_books"]}''
      | ParameterPrompt u t \<Rightarrow> Inr ''[{"tool_name": ["find_books"], "parameters": {}}]''
      | FinalPrompt u rs a \<Rightarrow> Inr ''Here you are.'')\<close>

definition demo :: env where
  "demo = \<lparr>generate_content = demo_env, json_decoder = json_loads, str_strip = utf8_strip,
             shows_lock = (\<lambda>r. False)\<rparr>"

section \<open>The order transaction: all or nothing, totals and stock\<close>

lemma time_sleep_raises: "time_sleep = Inl (NameError ''name 'time' is not defined'')"
  by (simp add: time_sleep_def tools_globals_def)

lemma validate_items_ok:
  "\<forall>l\<in>set items. line_ok db l \<Longrightarrow>
   validate_items db items a ls =
     Inr (foldl (\<lambda>a l. py_plus a (line_total db l)) a items,
          ls @ map (accepted_line db) items)"
proof (induction items arbitrary: a ls)
  case Nil
  then show ?case by simp
next
  case (Cons l items)
  from Cons.prems have ok: "line_ok db l" and rest: "\<forall>l\<in>set items. line_ok db l"
    by simp_all
  from ok obtain i q b where l: "isbn l = Some i" "quantity l = Some q" "i \<noteq> []" "0 < q"
      "books db i = Some b" "q \<le> stock b"
    by (auto simp: line_ok_def split: option.splits)
  show ?case
    using l Cons.IH [OF rest]
    by (simp add: line_total_def accepted_line_def)
qed

lemma validate_items_bad:
  "\<exists>l\<in>set items. \<not> line_ok db l \<Longrightarrow> \<exists>e. validate_items db items a ls = Inl e"
proof (induction items arbitrary: a ls)
  case Nil
  then show ?case by simp
next
  case (Cons l items)
  show ?case
  proof (cases "line_ok db l")
    case True
    with Cons.prems have "\<exists>l\<in>set items. \<not> line_ok db l" by simp
    from Cons.IH [OF this] True show ?thesis
      by (auto simp: line_ok_def split: option.splits)
  next
    case False
    then show ?thesis
      by (auto simp: line_ok_def split: option.splits)
  qed
qed

lemma books_update_stock:
  "books (update_stock i d db) j =
     (if j = i then map_option (\<lambda>b. b\<lparr>stock := stock b + d\<rparr>) (books db i) else books db j)"
  by (simp add: update_stock_def split: option.splits)

lemma update_stock_fields:
  "orders (update_stock i d db) = orders db"
  "order_items (update_stock i d db) = order_items db"
  "customers (update_stock i d db) = customers db"
  "order_seq (update_stock i d db) = order_seq db"
  by (simp_all add: update_stock_def split: option.splits)

lemma books_write_lines:
  "books (write_lines n ls db) i =
     map_option (\<lambda>b. b\<lparr>stock := stock b - lines_quantity ls i\<rparr>) (books db i)"
proof (induction ls arbitrary: db)
  case Nil
  then show ?case by (simp add: lines_quantity_def option.map_ident)
next
  case (Cons l ls)
  show ?case
  proof (cases "books db i")
    case None
    then show ?thesis
      by (auto simp: Cons.IH books_update_stock)
  next
    case (Some b)
    then show ?thesis
      by (auto simp: Cons.IH books_update_stock lines_quantity_def algebra_simps)
  qed
qed

lemma write_lines_fields:
  "orders (write_lines n ls db) = orders db"
  "customers (write_lines n ls db) = customers db"
  "order_seq (write_lines n ls db) = order_seq db"
  by (induction ls arbitrary: db) (simp_all add: update_stock_fields)


lemma stock_report_ok:
  "\<forall>l\<in>set ls. books db (line_isbn l) \<noteq> None \<Longrightarrow> \<exists>us. stock_report db ls = Inr us"
  by (induction ls) auto

lemma accepted_line_fields:
  "line_ok db l \<Longrightarrow> isbn l = Some (line_isbn (accepted_line db l))"
  "line_ok db l \<Longrightarrow> quantity l = Some (line_quantity (accepted_line db l))"
  "line_ok db l \<Longrightarrow> books db (line_isbn (accepted_line db l)) \<noteq> None"
  by (auto simp: line_ok_def accepted_line_def split: option.splits)

lemma lines_quantity_accepted:
  "\<forall>l\<in>set items. line_ok db l \<Longrightarrow>
   lines_quantity (map (accepted_line db) items) i = requested items i"
proof (induction items)
  case Nil
  then show ?case by (simp add: lines_quantity_def requested_def)
next
  case (Cons l items)
  then have ok: "line_ok db l" and IH: "lines_quantity (map (accepted_line db) items) i = requested items i"
    by simp_all
  show ?case
    using accepted_line_fields(1,2) [OF ok] IH
    by (auto simp: lines_quantity_def requested_def)
qed

lemma validate_items_error: "validate_items db items a ls = Inl e \<Longrightarrow> \<not> is_created e"
  by (induction items arbitrary: a ls) (auto split: option.splits if_splits)

lemma order_attempt_bad:
  assumes "customers db c = None \<or> (\<exists>l\<in>set items. \<not> line_ok db l)"
  shows "snd (order_attempt c items db) = db \<and> \<not> created (fst (order_attempt c items db))"
proof (cases "sqlite_int c")
  case False
  then show ?thesis by (simp add: order_attempt_def order_transaction_def)
next
  case True
  show ?thesis
  proof (cases "customers db c")
    case None
    with True show ?thesis by (simp add: order_attempt_def order_transaction_def)
  next
    case (Some name)
    with assms have "\<exists>l\<in>set items. \<not> line_ok db l" by simp
    from validate_items_bad [OF this] obtain e where
      e: "validate_items db items (PyInt 0) [] = Inl e"
      by blast
    with validate_items_error have "\<not> is_created e" by blast
    with True Some e show ?thesis by (simp add: order_attempt_def order_transaction_def)
  qed
qed

text \<open>
  Claim C1. Whenever the customer is unknown or some line of the request is not
  acceptable (its ISBN or quantity is missing, the quantity is not positive, the book is
  not in the catalogue, or the quantity exceeds the stock on hand), the call of
  \<^verbatim>\<open>create_order_safe\<close> leaves the whole database as it was, whatever the storage layer
  reports: no order row, no order line, no change of any stock; and it does not end with
  the success text.
\<close>

theorem create_order_all_or_nothing:
  assumes "customers db c = None \<or> (\<exists>l\<in>set items. \<not> line_ok db l)"
  shows "snd (snd (create_order_safe c items (st, db))) = db
       \<and> \<not> created (fst (create_order_safe c items (st, db)))"
proof (cases st)
  case Nil
  with order_attempt_bad [OF assms] show ?thesis
    by (simp add: case_prod_unfold)
next
  case (Cons s st')
  show ?thesis
  proof (cases s)
    case Available
    with Cons order_attempt_bad [OF assms] show ?thesis
      by (simp add: case_prod_unfold)
  next
    case Locked
    with Cons show ?thesis by (simp add: time_sleep_raises)
  next
    case (OperationalFault m)
    with Cons show ?thesis by simp
  next
    case (OtherFault m)
    with Cons show ?thesis by simp
  qed
qed

theorem create_order_all_or_nothing_witness:
  "\<not> line_ok shop \<lparr>isbn = Some ''X'', quantity = Some 6\<rparr>
   \<and> snd (snd (create_order_safe 1 [\<lparr>isbn = Some ''X'', quantity = Some 6\<rparr>] ([], shop))) = shop
   \<and> fst (create_order_safe 1 [\<lparr>isbn = Some ''X'', quantity = Some 6\<rparr>] ([], shop))
       = Inr (NotEnoughStock ''Book X'' 5 6)"
proof -
  let ?l = "\<lparr>isbn = Some ''X'', quantity = Some (6::int)\<rparr>"
  have bad: "\<not> line_ok shop ?l"
    by (simp add: line_ok_def shop_def)
  then have "customers shop 1 = None \<or> (\<exists>l\<in>set [?l]. \<not> line_ok shop l)"
    by simp
  from create_order_all_or_nothing [OF this, of "[]"]
  have same: "snd (snd (create_order_safe 1 [?l] ([], shop))) = shop"
    by simp
  have "fst (create_order_safe 1 [?l] ([], shop)) = Inr (NotEnoughStock ''Book X'' 5 6)"
    by (simp add: order_attempt_def order_transaction_def sqlite_int_def shop_def)
  with bad same show ?thesis by simp
qed

lemma find_last: "P x \<Longrightarrow> List.find P (xs @ [x]) \<noteq> None"
  by (auto simp: find_None_iff)

lemma order_transaction_ok:
  assumes cust: "customers db c = Some name"
    and lines: "\<forall>l\<in>set items. line_ok db l"
    and cid: "sqlite_int c"
    and tot: "bindable (order_total db items)"
  shows "\<exists>us. order_transaction db c items =
      Inr (OrderCreated (Suc (order_seq db)) name (order_total db items)
             (map (accepted_line db) items) us,
           write_lines (Suc (order_seq db)) (map (accepted_line db) items)
             (db\<lparr>orders := orders db @
                   [\<lparr>order_id = Suc (order_seq db), order_customer = c,
                     total_amount = order_total db items,
                     status = ''completed''\<rparr>],
                 order_seq := Suc (order_seq db)\<rparr>))"
proof -
  let ?n = "Suc (order_seq db)"
  let ?t = "order_total db items"
  let ?ls = "map (accepted_line db) items"
  let ?db1 = "db\<lparr>orders := orders db @
                   [\<lparr>order_id = ?n, order_customer = c, total_amount = ?t,
                     status = ''completed''\<rparr>],
                 order_seq := ?n\<rparr>"
  let ?db2 = "write_lines ?n ?ls ?db1"
  have v: "validate_items db items (PyInt 0) [] = Inr (?t, ?ls)"
    using validate_items_ok [OF lines, of "PyInt 0" "[]"] by (simp add: order_total_def)
  have f: "List.find (\<lambda>r. order_id r = ?n) (orders ?db2) \<noteq> None"
    by (simp add: write_lines_fields find_last)
  have "\<forall>l\<in>set ?ls. books ?db2 (line_isbn l) \<noteq> None"
    using lines accepted_line_fields(3) by (auto simp: books_write_lines)
  from stock_report_ok [OF this] obtain us where us: "stock_report ?db2 ?ls = Inr us" ..
  show ?thesis
    using cust cid tot v f us by (auto simp: order_transaction_def Let_def)
qed

lemma requested_absent:
  "\<forall>l\<in>set items. isbn l \<noteq> Some i \<Longrightarrow> requested items i = 0"
  by (induction items) (auto simp: requested_def)




text \<open>
  Restocking by a non-negative quantity and updating a price keep every stock
  non-negative, and so does an order whose lines name pairwise different ISBNs: the
  check of a line against the stock on hand is then the check against what the
  transaction takes.
\<close>

lemma restock_keeps_stock_nonneg:
  assumes "0 \<le> q" and "stock_nonneg (snd w)" and "restock_book_tool i q w = Some (r, w')"
  shows "stock_nonneg (snd w')"
proof (cases "next_storage (fst w)")
  case (Pair s st)
  show ?thesis
  proof (cases s)
    case Available
    with Pair assms show ?thesis
      by (auto simp: restock_book_tool_def stock_nonneg_def books_update_stock
               split: option.splits if_splits)
  qed (use Pair assms in \<open>auto simp: restock_book_tool_def\<close>)
qed

lemma update_price_keeps_stock_nonneg:
  assumes "stock_nonneg (snd w)" and "update_price_tool i p w = Some (r, w')"
  shows "stock_nonneg (snd w')"
proof (cases "next_storage (fst w)")
  case (Pair s st)
  show ?thesis
  proof (cases s)
    case Available
    with Pair assms show ?thesis
      by (auto simp: update_price_tool_def stock_nonneg_def split: option.splits if_splits)
  qed (use Pair assms in \<open>auto simp: update_price_tool_def\<close>)
qed

lemma validate_items_accepts:
  "validate_items db items a ls = Inr r \<Longrightarrow> \<forall>l\<in>set items. line_ok db l"
proof (induction items arbitrary: a ls)
  case Nil
  then show ?case by simp
next
  case (Cons l items)
  from Cons.prems obtain i q b where l: "isbn l = Some i" "quantity l = Some q" "i \<noteq> []"
      "\<not> q \<le> 0" "books db i = Some b" "\<not> stock b < q"
    and rest: "validate_items db items (py_plus a (py_times (price b) q))
        (ls @ [\<lparr>line_isbn = i, line_title = title b, line_quantity = q,
                 line_unit_price = py_float (price b),
                 line_item_total = py_float (py_times (price b) q)\<rparr>]) = Inr r"
    by (auto split: option.splits if_splits)
  from Cons.IH [OF rest] have "\<forall>l\<in>set items. line_ok db l" .
  moreover from l have "line_ok db l" by (simp add: line_ok_def)
  ultimately show ?case by simp
qed

lemma requested_distinct:
  assumes "distinct (map isbn items)" and "\<forall>l\<in>set items. line_ok db l"
    and "books db i = Some b" and "0 \<le> stock b"
  shows "requested items i \<le> stock b"
  using assms(1,2)
proof (induction items)
  case Nil
  with assms(4) show ?case by (simp add: requested_def)
next
  case (Cons l items)
  show ?case
  proof (cases "isbn l = Some i")
    case True
    with Cons.prems(1) have "\<forall>l'\<in>set items. isbn l' \<noteq> Some i" by force
    then have "requested items i = 0" by (rule requested_absent)
    moreover from Cons.prems(2) True assms(3) have "\<exists>q. quantity l = Some q \<and> q \<le> stock b"
      by (auto simp: line_ok_def split: option.splits)
    ultimately show ?thesis
      using True by (auto simp: requested_def)
  next
    case False
    with Cons show ?thesis by (simp add: requested_def)
  qed
qed

lemma order_transaction_distinct_keeps_stock_nonneg:
  assumes "distinct (map isbn items)" and "stock_nonneg db"
    and "order_transaction db c items = Inr (r, db')"
  shows "stock_nonneg db'"
proof (cases "customers db c")
  case None
  with assms show ?thesis by (simp add: order_transaction_def split: if_splits)
next
  case (Some name)
  show ?thesis
  proof (cases "validate_items db items (PyInt 0) []")
    case (Inl e)
    with Some assms show ?thesis by (simp add: order_transaction_def split: if_splits)
  next
    case (Inr p)
    then have ok: "\<forall>l\<in>set items. line_ok db l" by (rule validate_items_accepts)
    from validate_items_ok [OF ok, of "PyInt 0" "[]"] Inr
    have p: "p = (order_total db items, map (accepted_line db) items)"
      by (simp add: order_total_def)
    from assms(3) Some Inr p have cid: "sqlite_int c" and tot: "bindable (order_total db items)"
      by (auto simp: order_transaction_def split: if_splits)
    from order_transaction_ok [OF Some ok cid tot] assms(3) have
      db': "db' = write_lines (Suc (order_seq db)) (map (accepted_line db) items)
             (db\<lparr>orders := orders db @
                   [\<lparr>order_id = Suc (order_seq db), order_customer = c,
                     total_amount = order_total db items,
                     status = ''completed''\<rparr>],
                 order_seq := Suc (order_seq db)\<rparr>)"
      by auto
    have "\<And>i b'. books db' i = Some b' \<Longrightarrow> 0 \<le> stock b'"
    proof -
      fix i b' assume b': "books db' i = Some b'"
      then obtain b where b: "books db i = Some b"
        and eq: "b' = b\<lparr>stock := stock b - requested items i\<rparr>"
        by (auto simp: db' books_write_lines lines_quantity_accepted [OF ok])
      from assms(2) b have "0 \<le> stock b" by (simp add: stock_nonneg_def)
      from requested_distinct [OF assms(1) ok b this] eq show "0 \<le> stock b'" by simp
    qed
    then show ?thesis by (simp add: stock_nonneg_def)
  qed
qed

lemma create_order_distinct_keeps_stock_nonneg:
  assumes "distinct (map isbn items)" and "stock_nonneg db"
  shows "stock_nonneg (snd (snd (create_order_safe c items (st, db))))"
proof -
  have att: "stock_nonneg (snd (order_attempt c items db))"
    using assms order_transaction_distinct_keeps_stock_nonneg [OF assms]
    by (auto simp: order_attempt_def split: sum.splits)
  show ?thesis
  proof (cases st)
    case Nil
    with att show ?thesis by (simp add: case_prod_unfold)
  next
    case (Cons s st')
    with att assms(2) show ?thesis
      by (cases s) (simp_all add: case_prod_unfold time_sleep_raises)
  qed
qed

text \<open>
  Claim C3, at the request that names item \<open>X\<close> (stock 5) twice with quantity 3: both
  lines pass the check against the stock on hand, the order is created, and the two
  updates leave \<open>X\<close> with the stock \<open>-1\<close>.
\<close>

theorem create_order_duplicate_lines_negative_stock:
  "create_order_safe 1
     [\<lparr>isbn = Some ''X'', quantity = Some 3\<rparr>, \<lparr>isbn = Some ''X'', quantity = Some 3\<rparr>]
     ([], shop)
   = (Inr (OrderCreated 1 ''Alice'' (PyInt 60)
        [\<lparr>line_isbn = ''X'', line_title = ''Book X'', line_quantity = 3,
          line_unit_price = PyFloat (FOfInt 10), line_item_total = PyFloat (FOfInt 30)\<rparr>,
         \<lparr>line_isbn = ''X'', line_title = ''Book X'', line_quantity = 3,
          line_unit_price = PyFloat (FOfInt 10), line_item_total = PyFloat (FOfInt 30)\<rparr>]
        [(''Book X'', -1), (''Book X'', -1)]),
      ([], shop\<lparr>books := [''X'' \<mapsto> \<lparr>title = ''Book X'', price = PyInt 10, stock = -1\<rparr>],
              orders := [\<lparr>order_id = 1, order_customer = 1, total_amount = PyInt 60,
                          status = ''completed''\<rparr>],
              order_items := [\<lparr>item_order_id = 1, book_isbn = ''X'', item_quantity = 3,
                                unit_price = PyFloat (FOfInt 10)\<rparr>,
                              \<lparr>item_order_id = 1, book_isbn = ''X'', item_quantity = 3,
                                unit_price = PyFloat (FOfInt 10)\<rparr>],
              order_seq := 1\<rparr>))"
  by (simp add: order_attempt_def order_transaction_def update_stock_def sqlite_int_def
        shop_def Let_def)

text \<open>
  Claim C6, at a transaction the storage layer reports as locked: the handler of the
  lock error evaluates \<^verbatim>\<open>time.sleep\<close> before the retry, \<^verbatim>\<open>time\<close> is not bound in
  \<^verbatim>\<open>tools.py\<close>, and the \<open>NameError\<close> leaves \<^verbatim>\<open>create_order_safe\<close>: the transaction is not
  tried a second time (the result does not depend on the reports \<open>st\<close> that a retry
  would meet) and no message is returned.
\<close>

theorem create_order_lock_raises_name_error:
  "create_order_safe c items (Locked # st, db)
   = (Inl (NameError ''name 'time' is not defined''), (st, db))"
  by (simp add: time_sleep_raises)

section \<open>The response extractor: what the fallback scan finds\<close>

lemma depth_Nil: "depth opn cls [] = 0"
  by (simp add: depth_def)

lemma depth_Cons:
  "depth opn cls (c # s) =
     (if c = opn then 1 else 0) - (if c = cls then 1 else 0) + depth opn cls s"
  by (simp add: depth_def)

lemma find_char_None: "find_char c s = None \<longleftrightarrow> c \<notin> set s"
  by (induction s) auto

lemma find_char_first: "c \<notin> set pre \<Longrightarrow> find_char c (pre @ c # rest) = Some (length pre)"
  by (induction pre) auto

lemma match_close_balanced:
  assumes "opn \<noteq> cls" and "1 \<le> n"
    and "\<forall>k<length j. 0 < n + depth opn cls (take k j)"
    and "n + depth opn cls j = 0"
  shows "match_close opn cls (j @ post) i n = Some (i + length j)"
  using assms(2-)
proof (induction j arbitrary: n i)
  case Nil
  then show ?case by (simp add: depth_Nil)
next
  case (Cons c j)
  have step: "\<forall>k<length j. 0 < n + depth opn cls [c] + depth opn cls (take k j)"
  proof (intro allI impI)
    fix k assume "k < length j"
    then have "Suc k < length (c # j)" by simp
    with Cons.prems(2) have "0 < n + depth opn cls (take (Suc k) (c # j))" by blast
    then show "0 < n + depth opn cls [c] + depth opn cls (take k j)"
      by (simp add: depth_Cons depth_Nil)
  qed
  have total: "n + depth opn cls [c] + depth opn cls j = 0"
    using Cons.prems(3) by (simp add: depth_Cons depth_Nil)
  show ?case
  proof (cases "c = opn")
    case True
    then have d: "depth opn cls [c] = 1"
      using assms(1) by (simp add: depth_Cons depth_Nil)
    have "match_close opn cls (j @ post) (Suc i) (n + 1) = Some (Suc i + length j)"
      using Cons.IH [of "n + 1" "Suc i"] step total Cons.prems(1) d by simp
    with True show ?thesis by simp
  next
    case False
    show ?thesis
    proof (cases "c = cls")
      case True
      then have d: "depth opn cls [c] = - 1"
        using assms(1) by (simp add: depth_Cons depth_Nil)
      show ?thesis
      proof (cases "n - 1 = 0")
        case True
        have "j = []"
        proof (rule ccontr)
          assume "j \<noteq> []"
          then have "0 < length j" by simp
          with step have "0 < n + depth opn cls [c] + depth opn cls (take 0 j)" by blast
          with d True show False by (simp add: depth_Nil)
        qed
        with True \<open>c = cls\<close> \<open>c \<noteq> opn\<close> show ?thesis by simp
      next
        case False
        with Cons.prems(1) have n: "1 \<le> n - 1" by simp
        have "match_close opn cls (j @ post) (Suc i) (n - 1) = Some (Suc i + length j)"
          using Cons.IH [of "n - 1" "Suc i"] step total n d by simp
        with False \<open>c = cls\<close> \<open>c \<noteq> opn\<close> show ?thesis by simp
      qed
    next
      case False
      then have d: "depth opn cls [c] = 0"
        using \<open>c \<noteq> opn\<close> by (simp add: depth_Cons depth_Nil)
      have "match_close opn cls (j @ post) (Suc i) n = Some (Suc i + length j)"
        using Cons.IH [of n "Suc i"] step total Cons.prems(1) d by simp
      with False \<open>c \<noteq> opn\<close> show ?thesis by simp
    qed
  qed
qed

lemma match_close_never:
  assumes "opn \<noteq> cls" and "1 \<le> n"
    and "\<forall>k\<le>length s. n + depth opn cls (take k s) \<noteq> 0"
  shows "match_close opn cls s i n = None"
  using assms(2-)
proof (induction s arbitrary: n i)
  case Nil
  then show ?case by simp
next
  case (Cons c s)
  have step: "\<forall>k\<le>length s. n + depth opn cls [c] + depth opn cls (take k s) \<noteq> 0"
  proof (intro allI impI)
    fix k assume "k \<le> length s"
    then have "Suc k \<le> length (c # s)" by simp
    with Cons.prems(2) have "n + depth opn cls (take (Suc k) (c # s)) \<noteq> 0" by blast
    then show "n + depth opn cls [c] + depth opn cls (take k s) \<noteq> 0"
      by (simp add: depth_Cons depth_Nil)
  qed
  then have first: "n + depth opn cls [c] \<noteq> 0"
    by (auto simp: depth_Nil dest: spec [of _ 0])
  show ?case
  proof (cases "c = opn")
    case True
    then have d: "depth opn cls [c] = 1"
      using assms(1) by (simp add: depth_Cons depth_Nil)
    have "match_close opn cls s (Suc i) (n + 1) = None"
      using Cons.IH [of "n + 1" "Suc i"] step Cons.prems(1) d by simp
    with True show ?thesis by simp
  next
    case False
    show ?thesis
    proof (cases "c = cls")
      case True
      then have d: "depth opn cls [c] = - 1"
        using assms(1) by (simp add: depth_Cons depth_Nil)
      with first Cons.prems(1) have n: "1 \<le> n - 1" "n - 1 \<noteq> 0" by simp_all
      have "match_close opn cls s (Suc i) (n - 1) = None"
        using Cons.IH [of "n - 1" "Suc i"] step n d by simp
      with n \<open>c = cls\<close> \<open>c \<noteq> opn\<close> show ?thesis by simp
    next
      case False
      then have d: "depth opn cls [c] = 0"
        using \<open>c \<noteq> opn\<close> by (simp add: depth_Cons depth_Nil)
      have "match_close opn cls s (Suc i) n = None"
        using Cons.IH [of n "Suc i"] step Cons.prems(1) d by simp
      with False \<open>c \<noteq> opn\<close> show ?thesis by simp
    qed
  qed
qed

lemma scan_closes:
  assumes ne: "opn \<noteq> cls" and bal: "closes_at_end opn cls (opn # j)"
  shows "match_close opn cls ((opn # j) @ post) i 0 = Some (i + length (opn # j))"
proof -
  have pos: "\<forall>k<length j. 0 < 1 + depth opn cls (take k j)"
  proof (intro allI impI)
    fix k assume k: "k < length j"
    then have "Suc k \<in> set [1..<length (opn # j)]" by auto
    with bal have "0 < depth opn cls (take (Suc k) (opn # j))"
      unfolding closes_at_end_def list_all_iff by blast
    then show "0 < 1 + depth opn cls (take k j)"
      using ne by (simp add: depth_Cons)
  qed
  have tot: "1 + depth opn cls j = 0"
    using bal ne by (simp add: closes_at_end_def depth_Cons)
  have "match_close opn cls (j @ post) (Suc i) 1 = Some (Suc i + length j)"
    using match_close_balanced [OF ne _ pos tot] by simp
  then show ?thesis by simp
qed

lemma scan_never:
  assumes ne: "opn \<noteq> cls" and nev: "never_closes opn cls (opn # s)"
  shows "match_close opn cls (opn # s) i 0 = None"
proof -
  have "\<forall>k\<le>length s. 1 + depth opn cls (take k s) \<noteq> 0"
  proof (intro allI impI)
    fix k assume "k \<le> length s"
    then have "Suc k \<in> set [1..<Suc (length (opn # s))]" by auto
    with nev have "depth opn cls (take (Suc k) (opn # s)) \<noteq> 0"
      unfolding never_closes_def list_all_iff by blast
    then show "1 + depth opn cls (take k s) \<noteq> 0"
      using ne by (simp add: depth_Cons)
  qed
  from match_close_never [OF ne _ this] have "match_close opn cls s (Suc i) 1 = None"
    by simp
  then show ?thesis by simp
qed

lemma candidate_array:
  assumes "CHR ''['' \<notin> set pre" and "closes_at_end CHR ''['' CHR '']'' (CHR ''['' # j)"
  shows "candidate (pre @ (CHR ''['' # j) @ post) = Some (CHR ''['' # j)"
proof -
  have f: "find_char CHR ''['' (pre @ (CHR ''['' # j) @ post) = Some (length pre)"
    using find_char_first [OF assms(1)] by simp
  have m: "match_close CHR ''['' CHR '']'' ((CHR ''['' # j) @ post) (length pre) 0
             = Some (length pre + length (CHR ''['' # j))"
    by (rule scan_closes [OF _ assms(2)]) simp
  show ?thesis
    using f m by (simp add: candidate_def nth_append)
qed

lemma candidate_object:
  assumes "CHR ''['' \<notin> set (pre @ (CHR ''{'' # j) @ post)" and "CHR ''{'' \<notin> set pre"
    and "closes_at_end CHR ''{'' CHR ''}'' (CHR ''{'' # j)"
  shows "candidate (pre @ (CHR ''{'' # j) @ post) = Some (CHR ''{'' # j)"
proof -
  have n: "find_char CHR ''['' (pre @ (CHR ''{'' # j) @ post) = None"
    using assms(1) find_char_None by blast
  have f: "find_char CHR ''{'' (pre @ (CHR ''{'' # j) @ post) = Some (length pre)"
    using find_char_first [OF assms(2)] by simp
  have m: "match_close CHR ''{'' CHR ''}'' ((CHR ''{'' # j) @ post) (length pre) 0
             = Some (length pre + length (CHR ''{'' # j))"
    by (rule scan_closes [OF _ assms(3)]) simp
  show ?thesis
    using n f m by (simp add: candidate_def nth_append)
qed

lemma candidate_unclosed:
  assumes "CHR ''['' \<notin> set pre" and "never_closes CHR ''['' CHR '']'' (CHR ''['' # rest)"
  shows "candidate (pre @ CHR ''['' # rest) = None"
proof -
  have f: "find_char CHR ''['' (pre @ CHR ''['' # rest) = Some (length pre)"
    by (rule find_char_first [OF assms(1)])
  have m: "match_close CHR ''['' CHR '']'' (CHR ''['' # rest) (length pre) 0 = None"
    by (rule scan_never [OF _ assms(2)]) simp
  show ?thesis
    using f m by (simp add: candidate_def nth_append)
qed

lemma parse_direct: "loads (clean strip response) = Inr v \<Longrightarrow> parse_json_response strip loads response = Inr v"
  by (simp add: parse_json_response_def extract_json_def)

lemma parse_fallback:
  "loads (clean strip response) = Inl (JSONDecodeError m) \<Longrightarrow> candidate (clean strip response) = Some s \<Longrightarrow>
   parse_json_response strip loads response = (case loads s of Inl e \<Rightarrow> Inr (JObject []) | Inr v \<Rightarrow> Inr v)"
  by (simp add: parse_json_response_def extract_json_def)

lemma parse_nothing:
  "loads (clean strip response) = Inl e \<Longrightarrow> candidate (clean strip response) = None \<Longrightarrow>
   parse_json_response strip loads response = Inr (JObject [])"
  by (simp add: parse_json_response_def extract_json_def)

text \<open>
  Claim C7, as stated, at the text \<open>x {"a": "}"}\<close>: it contains exactly one well-formed
  JSON object and no other bracket, yet the scan stops at the brace inside the string
  literal, the cut-off substring does not parse, and the extractor returns the empty
  object instead of the object.
\<close>

theorem extractor_brace_in_string_counterexample:
  \<open>json_loads ''{"a": "}"}'' = Inr (JObject [(''a'', JString ''}'')])
   \<and> parse_json_response utf8_strip json_loads ''x {"a": "}"}'' = Inr (JObject [])\<close>
  by code_simp

text \<open>
  Claim C7, amended. A cleaned text that is itself JSON is returned parsed. Otherwise, let
  the cleaned text be \<open>pre @ j @ post\<close> where the span \<open>j\<close> starts with \<open>[\<close> and \<open>pre\<close> has no
  \<open>[\<close>, or \<open>j\<close> starts with \<open>{\<close>, the whole text has no \<open>[\<close> and \<open>pre\<close> has no \<open>{\<close>; if the
  brackets of that kind in \<open>j\<close> (those inside string literals counted too) first balance at
  the end of \<open>j\<close>, and \<open>j\<close> parses to \<open>v\<close>, the extractor returns exactly \<open>v\<close>. The array
  start is looked for before the object start.
\<close>

theorem extractor_recovers_first_span:
  "(loads (clean strip response) = Inr v \<longrightarrow> parse_json_response strip loads response = Inr v)
   \<and> (clean strip response = pre @ j @ post
        \<and> loads (clean strip response) = Inl (JSONDecodeError m)
        \<and> j \<noteq> []
        \<and> (hd j = CHR ''['' \<and> CHR ''['' \<notin> set pre \<and> closes_at_end CHR ''['' CHR '']'' j
            \<or> hd j = CHR ''{'' \<and> CHR ''['' \<notin> set (clean strip response) \<and> CHR ''{'' \<notin> set pre
               \<and> closes_at_end CHR ''{'' CHR ''}'' j)
        \<and> loads j = Inr v
      \<longrightarrow> parse_json_response strip loads response = Inr v)"
proof (intro conjI impI)
  assume "loads (clean strip response) = Inr v"
  then show "parse_json_response strip loads response = Inr v" by (rule parse_direct)
next
  assume a: "clean strip response = pre @ j @ post
        \<and> loads (clean strip response) = Inl (JSONDecodeError m)
        \<and> j \<noteq> []
        \<and> (hd j = CHR ''['' \<and> CHR ''['' \<notin> set pre \<and> closes_at_end CHR ''['' CHR '']'' j
            \<or> hd j = CHR ''{'' \<and> CHR ''['' \<notin> set (clean strip response) \<and> CHR ''{'' \<notin> set pre
               \<and> closes_at_end CHR ''{'' CHR ''}'' j)
        \<and> loads j = Inr v"
  then have cl: "clean strip response = pre @ j @ post"
    and dr: "loads (clean strip response) = Inl (JSONDecodeError m)"
    and val: "loads j = Inr v"
    by blast+
  from a obtain j' where j: "j = hd j # j'" by (cases j) auto
  from a consider
      (array) "hd j = CHR ''[''" "CHR ''['' \<notin> set pre" "closes_at_end CHR ''['' CHR '']'' j"
    | (object) "hd j = CHR ''{''" "CHR ''['' \<notin> set (clean strip response)" "CHR ''{'' \<notin> set pre"
        "closes_at_end CHR ''{'' CHR ''}'' j"
    by blast
  then have "candidate (pre @ j @ post) = Some j"
  proof cases
    case array
    with j have j2: "j = CHR ''['' # j'" by simp
    from candidate_array [OF array(2), of j' post] array(3) j2 show ?thesis by simp
  next
    case object
    with j have j2: "j = CHR ''{'' # j'" by simp
    from candidate_object [of pre j' post] object cl j2 show ?thesis by simp
  qed
  then have cand: "candidate (clean strip response) = Some j"
    by (simp only: cl)
  have "parse_json_response strip loads response =
      (case loads j of Inl e \<Rightarrow> Inr (JObject []) | Inr v \<Rightarrow> Inr v)"
    using dr cand by (rule parse_fallback)
  with val show "parse_json_response strip loads response = Inr v"
    by simp
qed

theorem extractor_recovers_first_span_witness:
  \<open>clean utf8_strip ''Sure! [{"tool_name":"restock_book","parameters":{"isbn":"X","quantity":2}}] Done.''
     = ''Sure! '' @ ''[{"tool_name":"restock_book","parameters":{"isbn":"X","quantity":2}}]'' @ '' Done.''
   \<and> closes_at_end CHR ''['' CHR '']'' ''[{"tool_name":"restock_book","parameters":{"isbn":"X","quantity":2}}]''
   \<and> parse_json_response utf8_strip json_loads
        ''Sure! [{"tool_name":"restock_book","parameters":{"isbn":"X","quantity":2}}] Done.''
     = Inr (JArray [JObject [(''tool_name'', JString ''restock_book''),
                             (''parameters'', JObject [(''isbn'', JString ''X''), (''quantity'', JInt 2)])]])\<close>
proof -
  let ?text = \<open>''Sure! [{"tool_name":"restock_book","parameters":{"isbn":"X","quantity":2}}] Done.''\<close>
  let ?j = \<open>''[{"tool_name":"restock_book","parameters":{"isbn":"X","quantity":2}}]''\<close>
  let ?v = "JArray [JObject [(''tool_name'', JString ''restock_book''),
                             (''parameters'', JObject [(''isbn'', JString ''X''), (''quantity'', JInt 2)])]]"
  have c: "clean utf8_strip ?text = ''Sure! '' @ ?j @ '' Done.''" by code_simp
  have d: "json_loads (clean utf8_strip ?text) = Inl (JSONDecodeError ''Expecting value'')" by code_simp
  have b: "closes_at_end CHR ''['' CHR '']'' ?j" by code_simp
  have p: "CHR ''['' \<notin> set ''Sure! ''" by simp
  have l: "json_loads ?j = Inr ?v" by code_simp
  have "parse_json_response utf8_strip json_loads ?text = Inr ?v"
    using extractor_recovers_first_span [of json_loads utf8_strip ?text ?v "''Sure! ''" ?j "'' Done.''" "''Expecting value''"]
      c d b p l by simp
  with c b show ?thesis by simp
qed

text \<open>
  Claim C8, as stated, at the text \<open>null\<close>: no JSON object or array can be extracted from
  it (the fallback scan has no candidate), but the text is itself JSON, and the extractor
  returns the parsed value \<open>None\<close>, not the empty object.
\<close>

theorem extractor_scalar_counterexample:
  "candidate (clean utf8_strip ''null'') = None
   \<and> parse_json_response utf8_strip json_loads ''null'' = Inr JNull"
  by code_simp

text \<open>
  Claim C8, amended. For every \<^verbatim>\<open>json.loads\<close>, every \<^verbatim>\<open>str.strip\<close> and every text the extractor returns a
  value and raises nothing; and when the cleaned text does not parse and the fallback
  scan finds no substring, or one that does not parse either, the value it returns is
  the empty object.
\<close>

theorem extractor_total_and_empty_on_failure:
  "(\<exists>v. parse_json_response strip loads response = Inr v)
   \<and> ((\<exists>e. loads (clean strip response) = Inl e)
        \<and> (\<forall>s. candidate (clean strip response) = Some s \<longrightarrow> (\<exists>e. loads s = Inl e))
      \<longrightarrow> parse_json_response strip loads response = Inr (JObject []))"
proof (intro conjI impI)
  show "\<exists>v. parse_json_response strip loads response = Inr v"
    by (cases "extract_json loads (clean strip response)") (simp_all add: parse_json_response_def)
next
  assume a: "(\<exists>e. loads (clean strip response) = Inl e)
        \<and> (\<forall>s. candidate (clean strip response) = Some s \<longrightarrow> (\<exists>e. loads s = Inl e))"
  then obtain e where e: "loads (clean strip response) = Inl e" by blast
  show "parse_json_response strip loads response = Inr (JObject [])"
  proof (cases "candidate (clean strip response)")
    case None
    with e show ?thesis by (rule parse_nothing)
  next
    case (Some s)
    with a obtain e' where "loads s = Inl e'" by blast
    with e Some show ?thesis
      by (simp add: parse_json_response_def extract_json_def)
  qed
qed

theorem extractor_total_and_empty_on_failure_witness:
  \<open>json_loads (clean utf8_strip ''Done {"a": '') = Inl (JSONDecodeError ''Expecting value'')
   \<and> candidate (clean utf8_strip ''Done {"a": '') = None
   \<and> parse_json_response utf8_strip json_loads ''Done {"a": '' = Inr (JObject [])\<close>
proof -
  let ?text = \<open>''Done {"a": ''\<close>
  have d: "json_loads (clean utf8_strip ?text) = Inl (JSONDecodeError ''Expecting value'')" by code_simp
  have c: "candidate (clean utf8_strip ?text) = None" by code_simp
  from extractor_total_and_empty_on_failure [of utf8_strip json_loads ?text] d c
  have "parse_json_response utf8_strip json_loads ?text = Inr (JObject [])" by simp
  with d c show ?thesis by simp
qed

text \<open>
  Claim C10. In the fallback scan (the cleaned text did not parse), when the cleaned text
  has a \<open>[\<close> and the brackets from its first \<open>[\<close> on never balance, the extractor returns
  the empty object, whatever else the text contains: the search for \<open>{\<close> is not made, so
  a complete JSON object in the text is not found.
\<close>

theorem unclosed_array_hides_object:
  assumes "clean strip response = pre @ CHR ''['' # rest"
    and "CHR ''['' \<notin> set pre"
    and "never_closes CHR ''['' CHR '']'' (CHR ''['' # rest)"
    and "loads (clean strip response) = Inl e"
  shows "parse_json_response strip loads response = Inr (JObject [])"
proof -
  have "candidate (clean strip response) = None"
    using candidate_unclosed [OF assms(2,3)] assms(1) by simp
  with assms(4) show ?thesis by (rule parse_nothing)
qed

theorem unclosed_array_hides_object_witness:
  \<open>clean utf8_strip ''See [1: {"a": 1}'' = ''See '' @ CHR ''['' # ''1: {"a": 1}''
   \<and> never_closes CHR ''['' CHR '']'' (CHR ''['' # ''1: {"a": 1}'')
   \<and> json_loads ''{"a": 1}'' = Inr (JObject [(''a'', JInt 1)])
   \<and> parse_json_response utf8_strip json_loads ''See [1: {"a": 1}'' = Inr (JObject [])\<close>
proof -
  let ?text = \<open>''See [1: {"a": 1}''\<close>
  let ?rest = \<open>''1: {"a": 1}''\<close>
  have c: "clean utf8_strip ?text = ''See '' @ CHR ''['' # ?rest" by code_simp
  have p: "CHR ''['' \<notin> set ''See ''" by simp
  have n: "never_closes CHR ''['' CHR '']'' (CHR ''['' # ?rest)" by code_simp
  have d: "json_loads (clean utf8_strip ?text) = Inl (JSONDecodeError ''Expecting value'')" by code_simp
  have o: \<open>json_loads ''{"a": 1}'' = Inr (JObject [(''a'', JInt 1)])\<close> by code_simp
  from unclosed_array_hides_object [of utf8_strip ?text "''See ''" ?rest json_loads "JSONDecodeError ''Expecting value''"] c p n d
  have "parse_json_response utf8_strip json_loads ?text = Inr (JObject [])" by simp
  with c n o show ?thesis by simp
qed

section \<open>The executor: usage records and success flags\<close>

lemma recorded_tools: "tools ag' = tools ag \<Longrightarrow> recorded ag' d = recorded ag d"
  by (auto simp: recorded_def split: sum.splits option.splits json.splits)

lemma execute_tool_tools: "tools (fst (snd (execute_tool ag d w))) = tools ag"
  by (auto simp: execute_tool_def record_usage_def Let_def
           split: sum.splits option.splits bool.splits prod.splits)

lemma execute_tool_call:
  assumes "is_call d"
  shows "\<exists>r ag' w'. execute_tool ag d w = (Inr r, ag', w')
     \<and> length (tool_usage_history ag') =
         length (tool_usage_history ag) + (if recorded ag d then 1 else 0)"
proof -
  from assms obtain kvs where d: "d = JObject kvs" by (cases d) auto
  show ?thesis
  proof (cases "map_of kvs ''tool_name''")
    case None
    with d show ?thesis
      by (simp add: execute_tool_def recorded_def Let_def)
  next
    case (Some v)
    show ?thesis
    proof (cases v)
      case (JString n)
      with Some d show ?thesis
        by (auto simp: execute_tool_def recorded_def record_usage_def Let_def
                 split: sum.splits option.splits bool.splits prod.splits)
    qed (use Some d assms in \<open>simp_all add: execute_tool_def recorded_def Let_def\<close>)
  qed
qed


lemmas run_defs =
  execute_tool_def decision_parameters_def restock_check_def quantity_shown_def
  record_usage_def gemini_agent_def gemini_tools_def tool_call_def create_order_run_def
  restock_book_run_def update_price_run_def restock_book_tool_def
  update_price_tool_def update_stock_def order_attempt_def order_transaction_def
  sqlite_int_def shop_def Let_def

text \<open>
  Claim C4, as stated, at the one call of the unregistered operation \<open>delete_book\<close>: the
  executor returns one failed result and the usage history stays empty, so it has grown
  by 0 and not by 1.
\<close>

theorem unknown_tool_not_recorded_counterexample:
  "is_call (tool_call ''delete_book'' [])
   \<and> fst (execute_tools (gemini_agent unmodelled) [tool_call ''delete_book'' []] ([], shop))
       = Inr [\<lparr>res_tool_name = JString ''delete_book'',
                res_result = UnknownTool (JString ''delete_book''), res_success = False\<rparr>]
   \<and> tool_usage_history
        (fst (snd (execute_tools (gemini_agent unmodelled) [tool_call ''delete_book'' []] ([], shop)))) = []"
  by (simp add: run_defs)

text \<open>
  Claim C4, amended. For every list of N operation calls the executor returns N results
  and appends exactly one usage record for each call that names a registered operation
  and is not rejected by the executor's own check of the restock quantity, whether its
  handler returns or raises; a call of an unknown operation and a rejected restock
  append none. The history grows by the number of recorded calls.
\<close>

theorem usage_history_growth:
  assumes "\<forall>d\<in>set ds. is_call d"
  shows "\<exists>rs ag' w'. execute_tools ag ds w = (Inr rs, ag', w')
     \<and> length rs = length ds
     \<and> length (tool_usage_history ag') =
         length (tool_usage_history ag) + length (filter (recorded ag) ds)"
  using assms
proof (induction ds arbitrary: ag w)
  case Nil
  then show ?case by simp
next
  case (Cons d ds)
  then have "is_call d" and calls: "\<forall>d\<in>set ds. is_call d" by simp_all
  from execute_tool_call [OF this(1), of ag w] obtain r ag1 w1 where
    one: "execute_tool ag d w = (Inr r, ag1, w1)"
    and h1: "length (tool_usage_history ag1) =
         length (tool_usage_history ag) + (if recorded ag d then 1 else 0)"
    by blast
  have t1: "tools ag1 = tools ag"
    using execute_tool_tools [of ag d w] one by simp
  from Cons.IH [OF calls, of ag1 w1] obtain rs ag2 w2 where
    rest: "execute_tools ag1 ds w1 = (Inr rs, ag2, w2)"
    and len: "length rs = length ds"
    and h2: "length (tool_usage_history ag2) =
         length (tool_usage_history ag1) + length (filter (recorded ag1) ds)"
    by blast
  have "filter (recorded ag1) ds = filter (recorded ag) ds"
    using recorded_tools [OF t1] by (simp cong: filter_cong)
  with one rest len h1 h2 show ?case by simp
qed

theorem usage_history_growth_witness:
  "length (filter (recorded (gemini_agent unmodelled))
     [tool_call ''create_order'' [(''customer_id'', JInt 99), (''items'', JArray [])],
      tool_call ''restock_book'' [(''isbn'', JString ''X''), (''quantity'', JInt 0)],
      tool_call ''restock_book'' [(''isbn'', JString ''X''), (''quantity'', JInt 2)],
      tool_call ''delete_book'' []]) = 2
   \<and> (\<exists>rs ag' w'.
        execute_tools (gemini_agent unmodelled)
          [tool_call ''create_order'' [(''customer_id'', JInt 99), (''items'', JArray [])],
           tool_call ''restock_book'' [(''isbn'', JString ''X''), (''quantity'', JInt 0)],
           tool_call ''restock_book'' [(''isbn'', JString ''X''), (''quantity'', JInt 2)],
           tool_call ''delete_book'' []] ([], shop) = (Inr rs, ag', w')
        \<and> length rs = 4 \<and> length (tool_usage_history ag') = 2)"
proof -
  let ?ds = "[tool_call ''create_order'' [(''customer_id'', JInt 99), (''items'', JArray [])],
      tool_call ''restock_book'' [(''isbn'', JString ''X''), (''quantity'', JInt 0)],
      tool_call ''restock_book'' [(''isbn'', JString ''X''), (''quantity'', JInt 2)],
      tool_call ''delete_book'' []]"
  have calls: "\<forall>d\<in>set ?ds. is_call d"
    by (simp add: tool_call_def)
  have n: "length (filter (recorded (gemini_agent unmodelled)) ?ds) = 2"
    by (simp add: recorded_def run_defs)
  have h: "length (tool_usage_history (gemini_agent unmodelled)) = 0"
    by (simp add: gemini_agent_def)
  from usage_history_growth [OF calls, of "gemini_agent unmodelled" "([], shop)"] obtain rs ag' w'
    where
    r: "execute_tools (gemini_agent unmodelled) ?ds ([], shop) = (Inr rs, ag', w')"
    and l: "length rs = length ?ds"
    and g: "length (tool_usage_history ag') =
         length (tool_usage_history (gemini_agent unmodelled))
           + length (filter (recorded (gemini_agent unmodelled)) ?ds)"
    by blast
  have l4: "length rs = 4"
    using l by simp
  have g2: "length (tool_usage_history ag') = 2"
    using g unfolding n h by simp
  from r l4 g2 n show ?thesis by blast
qed





text \<open>
  A restock the executor's own check rejects is not run: its result carries the
  executor's message with \<open>success = False\<close>, and neither the history nor the world
  changes.
\<close>

lemma execute_tool_rejected:
  assumes "py_get d ''tool_name'' = Inr (Some (JString ''restock_book''))"
    and "tools ag ''restock_book'' = Some h"
    and "restock_check (decision_parameters d) = Inr True"
  shows "execute_tool ag d w =
     (Inr \<lparr>res_tool_name = JString ''restock_book'',
           res_result = NonPositiveRestock (quantity_shown (decision_parameters d)),
           res_success = False\<rparr>, ag, w)"
  using assms by (simp add: execute_tool_def Let_def)

text \<open>
  The flag of a result is true exactly when the result carries the text a tool returned:
  it is false for an unknown tool, for a restock the executor rejects, and for an
  exception raised by the run or by the restock check.
\<close>

lemma success_iff_tool_text:
  assumes "execute_tool ag d w = (Inr r, ag', w')"
  shows "res_success r \<longleftrightarrow> (\<exists>t. res_result r = ToolText t)"
  using assms
  by (auto simp: execute_tool_def Let_def
           split: sum.splits option.splits bool.splits prod.splits if_splits)

text \<open>
  The validation failures the three catalogue tools detect are returned as texts, and
  the tables are left as they were: an unknown customer or an unacceptable line of an
  order, and an unknown ISBN of a restock or of a price update.
\<close>

lemma validate_items_reason:
  "validate_items db items a ls = Inl e \<Longrightarrow> is_validation_failure e"
  by (induction items arbitrary: a ls) (auto split: option.splits if_splits)

lemma create_order_validation:
  assumes bad: "customers db c = None \<or> (\<exists>l\<in>set items. \<not> line_ok db l)"
    and cid: "sqlite_int c"
    and avail: "next_storage st = (Available, st')"
  shows "\<exists>e. create_order_safe c items (st, db) = (Inr e, (st', db)) \<and> is_validation_failure e"
proof -
  have "\<exists>e. order_transaction db c items = Inr (e, db) \<and> is_validation_failure e"
  proof (cases "customers db c")
    case None
    with cid show ?thesis by (simp add: order_transaction_def)
  next
    case (Some name)
    with bad have "\<exists>l\<in>set items. \<not> line_ok db l" by simp
    from validate_items_bad [OF this] obtain e where
      e: "validate_items db items (PyInt 0) [] = Inl e"
      by blast
    with validate_items_reason have "is_validation_failure e" by blast
    with cid Some e show ?thesis by (simp add: order_transaction_def)
  qed
  then obtain e where "order_attempt c items db = (Inr e, db)" and v: "is_validation_failure e"
    by (auto simp: order_attempt_def)
  then have "create_order_safe c items (st, db) = (Inr e, (st', db))"
    using avail by (cases st) auto
  with v show ?thesis by blast
qed

lemma restock_unknown_book:
  assumes "books db i = None" and "next_storage st = (Available, st')"
  shows "restock_book_tool i q (st, db) = Some (BookNotFound i, (st', db))"
  using assms by (simp add: restock_book_tool_def)

lemma update_price_unknown_book:
  assumes "books db i = None" and "next_storage st = (Available, st')"
  shows "update_price_tool i p (st, db) = Some (BookNotFound i, (st', db))"
  using assms by (simp add: update_price_tool_def)

lemma registry_validation_failures:
  "order_args p = Some (c, items) \<Longrightarrow>
     create_order_run other p w = create_order_safe c items w"
  "restock_args p = Some (i, q) \<Longrightarrow> 1 \<le> q \<Longrightarrow> books db i = None \<Longrightarrow>
     next_storage st = (Available, st') \<Longrightarrow>
     restock_book_run other p (st, db) = (Inr (BookNotFound i), (st', db))"
  "price_args p = Some (i, n) \<Longrightarrow> 0 \<le> n \<Longrightarrow> books db i = None \<Longrightarrow>
     next_storage st = (Available, st') \<Longrightarrow>
     update_price_run other p (st, db) = (Inr (BookNotFound i), (st', db))"
  by (simp_all add: create_order_run_def restock_book_run_def update_price_run_def
        restock_unknown_book update_price_unknown_book)




section \<open>The entry point: every exception ends in the error response\<close>

lemma process_request_body:
  "process_request env ag req w =
     (case process_body env ag req w of
        (Inl e, ag', w') \<Rightarrow> (Inr (error_response e), ag', w')
      | (Inr r, ag', w') \<Rightarrow> (Inr r, ag', w'))"
  by (simp add: process_request_def)

lemma error_response_fields:
  "final_response (error_response e) = ProcessingError e"
  "tools_used (error_response e) = []"
  "tool_results (error_response e) = []"
  "needed_tools (error_response e) = JBool False"
  by (simp_all add: error_response_def)

lemma body_raises_in_planning:
  assumes "py_get (analyze_request env req) ''needs_tools'' = Inr (Some nt)"
    and "py_get (analyze_request env req) ''tools_needed'' = Inr (Some tn)"
    and "truthy nt" and "truthy tn"
    and "determine_tool_parameters env req tn = Inl e"
  shows "process_body env ag req w = (Inl e, ag, w)"
  using assms by (simp add: process_body_def plan_and_execute_def Let_def)

lemma body_raises_in_execution:
  assumes "py_get (analyze_request env req) ''needs_tools'' = Inr (Some nt)"
    and "py_get (analyze_request env req) ''tools_needed'' = Inr (Some tn)"
    and "truthy nt" and "truthy tn"
    and "determine_tool_parameters env req tn = Inr ds" and "ds \<noteq> []"
    and "execute_tools ag ds w = (Inl e, ag', w')"
  shows "process_body env ag req w = (Inl e, ag', w')"
  using assms by (simp add: process_body_def plan_and_execute_def Let_def)

text \<open>
  Claim C9. For every completion service, agent, request and world, \<^verbatim>\<open>process_request\<close>
  returns a response and raises nothing. Whenever its \<^verbatim>\<open>try\<close> block raises \<open>e\<close>, and so in
  particular when the planning stage raises (the join of \<^verbatim>\<open>tools_needed\<close>) or the executor
  raises (a tool name that cannot be hashed), the response has the final text that embeds
  \<open>e\<close>, an empty list of operation calls, an empty list of results, and the flag
  \<^verbatim>\<open>needed_tools\<close> false.
\<close>

theorem process_request_never_raises:
  "(\<exists>r ag' w'. process_request env ag req w = (Inr r, ag', w'))
   \<and> (\<forall>e ag' w'. process_body env ag req w = (Inl e, ag', w') \<longrightarrow>
         (\<exists>r. process_request env ag req w = (Inr r, ag', w')
              \<and> final_response r = ProcessingError e \<and> tools_used r = []
              \<and> tool_results r = [] \<and> needed_tools r = JBool False))
   \<and> (\<forall>nt tn e.
         py_get (analyze_request env req) ''needs_tools'' = Inr (Some nt)
         \<and> py_get (analyze_request env req) ''tools_needed'' = Inr (Some tn)
         \<and> truthy nt \<and> truthy tn
         \<and> determine_tool_parameters env req tn = Inl e \<longrightarrow>
         (\<exists>r. process_request env ag req w = (Inr r, ag, w)
              \<and> final_response r = ProcessingError e \<and> tools_used r = []
              \<and> tool_results r = [] \<and> needed_tools r = JBool False))
   \<and> (\<forall>nt tn ds e ag' w'.
         py_get (analyze_request env req) ''needs_tools'' = Inr (Some nt)
         \<and> py_get (analyze_request env req) ''tools_needed'' = Inr (Some tn)
         \<and> truthy nt \<and> truthy tn
         \<and> determine_tool_parameters env req tn = Inr ds \<and> ds \<noteq> []
         \<and> execute_tools ag ds w = (Inl e, ag', w') \<longrightarrow>
         (\<exists>r. process_request env ag req w = (Inr r, ag', w')
              \<and> final_response r = ProcessingError e \<and> tools_used r = []
              \<and> tool_results r = [] \<and> needed_tools r = JBool False))"
proof -
  have total: "\<exists>r ag' w'. process_request env ag req w = (Inr r, ag', w')"
    by (auto simp: process_request_body split: prod.splits sum.splits)
  have caught: "\<exists>r. process_request env ag req w = (Inr r, ag', w')
              \<and> final_response r = ProcessingError e \<and> tools_used r = []
              \<and> tool_results r = [] \<and> needed_tools r = JBool False"
    if "process_body env ag req w = (Inl e, ag', w')" for e ag' w'
    using that by (simp add: process_request_body error_response_fields)
  show ?thesis
  proof (intro conjI allI impI)
    show "\<exists>r ag' w'. process_request env ag req w = (Inr r, ag', w')"
      by (rule total)
  next
    fix e ag' w'
    assume "process_body env ag req w = (Inl e, ag', w')"
    then show "\<exists>r. process_request env ag req w = (Inr r, ag', w')
              \<and> final_response r = ProcessingError e \<and> tools_used r = []
              \<and> tool_results r = [] \<and> needed_tools r = JBool False"
      by (rule caught)
  next
    fix nt tn e
    assume "py_get (analyze_request env req) ''needs_tools'' = Inr (Some nt)
         \<and> py_get (analyze_request env req) ''tools_needed'' = Inr (Some tn)
         \<and> truthy nt \<and> truthy tn
         \<and> determine_tool_parameters env req tn = Inl e"
    then have "process_body env ag req w = (Inl e, ag, w)"
      using body_raises_in_planning [of env req nt tn e ag w] by blast
    then show "\<exists>r. process_request env ag req w = (Inr r, ag, w)
              \<and> final_response r = ProcessingError e \<and> tools_used r = []
              \<and> tool_results r = [] \<and> needed_tools r = JBool False"
      by (rule caught)
  next
    fix nt tn ds e ag' w'
    assume "py_get (analyze_request env req) ''needs_tools'' = Inr (Some nt)
         \<and> py_get (analyze_request env req) ''tools_needed'' = Inr (Some tn)
         \<and> truthy nt \<and> truthy tn
         \<and> determine_tool_parameters env req tn = Inr ds \<and> ds \<noteq> []
         \<and> execute_tools ag ds w = (Inl e, ag', w')"
    then have "process_body env ag req w = (Inl e, ag', w')"
      using body_raises_in_execution [of env req nt tn ds ag w e ag' w'] by blast
    then show "\<exists>r. process_request env ag req w = (Inr r, ag', w')
              \<and> final_response r = ProcessingError e \<and> tools_used r = []
              \<and> tool_results r = [] \<and> needed_tools r = JBool False"
      by (rule caught)
  qed
qed

theorem process_request_never_raises_witness:
  "determine_tool_parameters demo ''Which books?'' (JArray [JString ''find_books''])
     = Inr [JObject [(''tool_name'', JArray [JString ''find_books'']), (''parameters'', JObject [])]]
   \<and> execute_tools (gemini_agent unmodelled)
        [JObject [(''tool_name'', JArray [JString ''find_books'']), (''parameters'', JObject [])]]
        ([], shop)
     = (Inl (TypeError ''unhashable type: list''), (gemini_agent unmodelled), ([], shop))
   \<and> (\<exists>r. process_request demo (gemini_agent unmodelled) ''Which books?'' ([], shop)
            = (Inr r, (gemini_agent unmodelled), ([], shop))
          \<and> final_response r = ProcessingError (TypeError ''unhashable type: list'')
          \<and> tools_used r = [] \<and> tool_results r = [] \<and> needed_tools r = JBool False)"
proof -
  let ?req = "''Which books?''"
  let ?tn = "JArray [JString ''find_books'']"
  let ?ds = "[JObject [(''tool_name'', JArray [JString ''find_books'']), (''parameters'', JObject [])]]"
  let ?e = "TypeError ''unhashable type: list''"
  have a: "analyze_request demo ?req =
      JObject [(''needs_tools'', JBool True), (''tools_needed'', ?tn),
               (''reasoning'', JString ''Analysis completed''), (''action_type'', JString ''other'')]"
    by code_simp
  have nt: "py_get (analyze_request demo ?req) ''needs_tools'' = Inr (Some (JBool True))"
    by (simp add: a)
  have tn: "py_get (analyze_request demo ?req) ''tools_needed'' = Inr (Some ?tn)"
    by (simp add: a)
  have det: "determine_tool_parameters demo ?req ?tn = Inr ?ds"
    by code_simp
  have ex: "execute_tools (gemini_agent unmodelled) ?ds ([], shop) = (Inl ?e, (gemini_agent unmodelled), ([], shop))"
    by (simp add: execute_tool_def Let_def)
  have "\<exists>r. process_request demo (gemini_agent unmodelled) ?req ([], shop) = (Inr r, (gemini_agent unmodelled), ([], shop))
          \<and> final_response r = ProcessingError ?e
          \<and> tools_used r = [] \<and> tool_results r = [] \<and> needed_tools r = JBool False"
  proof -
    have t1: "truthy (JBool True)" and t2: "truthy ?tn" and ne: "?ds \<noteq> []"
      by simp_all
    from process_request_never_raises [of demo "gemini_agent unmodelled" ?req "([], shop)"]
    have "\<forall>nt tn ds e ag' w'.
         py_get (analyze_request demo ?req) ''needs_tools'' = Inr (Some nt)
         \<and> py_get (analyze_request demo ?req) ''tools_needed'' = Inr (Some tn)
         \<and> truthy nt \<and> truthy tn
         \<and> determine_tool_parameters demo ?req tn = Inr ds \<and> ds \<noteq> []
         \<and> execute_tools (gemini_agent unmodelled) ds ([], shop) = (Inl e, ag', w') \<longrightarrow>
         (\<exists>r. process_request demo (gemini_agent unmodelled) ?req ([], shop) = (Inr r, ag', w')
              \<and> final_response r = ProcessingError e \<and> tools_used r = []
              \<and> tool_results r = [] \<and> needed_tools r = JBool False)"
      by (elim conjE)
    note step = this [rule_format, of "JBool True" ?tn ?ds ?e "gemini_agent unmodelled" "([], shop)"]
    show ?thesis
      by (rule step) (intro conjI nt tn t1 t2 det ne ex)
  qed
  with det ex show ?thesis by blast
qed

end
